theory Spec2Isabelle
  imports Complex_Main
begin

section \<open>The drawing surface\<close>

text \<open>
  The visualizer draws through the browser's 2D canvas context. The context is modelled as
  a record of exactly the attributes the two source files assign (styles, line width, text
  settings, shadow, the scale set once by the dark-mode constructor), the current path,
  and the list of everything painted on the bitmap so far, oldest first. JavaScript numbers
  are idealised as reals. A paint operation stores the attribute values in force when it
  was issued. What the bitmap shows is decided by the operations issued since the last
  \<open>clearRect\<close> that covered all of it, together with the bitmap size and the scale they
  were issued under: everything painted before such a clear is gone.
\<close>

datatype seg =
    MoveTo real real
  | LineTo real real
  | Arc real real real real real
  | ClosePath

type_synonym shadow = "(real \<times> string) option"

datatype paint =
    ClearRect real real real real
  | FillRect string shadow real real real real
  | Fill string shadow "seg list"
  | Stroke string real shadow "seg list"
  | FillText string string string string shadow string real real

record context2d =
  fillStyle :: string
  strokeStyle :: string
  lineWidth :: real
  font :: string
  textAlign :: string
  textBaseline :: string
  shadowBlur :: real
  shadowColor :: string
  ctxScale :: "real \<times> real"
  path :: "seg list"
  painted :: "paint list"

text \<open>A shadow is rendered only when the blur is non-zero (no offsets are ever set).\<close>

definition shadowOf :: "context2d \<Rightarrow> shadow" where
  "shadowOf c = (if shadowBlur c = 0 then None else Some (shadowBlur c, shadowColor c))"

definition ctx_beginPath :: "context2d \<Rightarrow> context2d" where
  "ctx_beginPath c = c\<lparr>path := []\<rparr>"

definition ctx_moveTo :: "real \<Rightarrow> real \<Rightarrow> context2d \<Rightarrow> context2d" where
  "ctx_moveTo x y c = c\<lparr>path := path c @ [MoveTo x y]\<rparr>"

definition ctx_lineTo :: "real \<Rightarrow> real \<Rightarrow> context2d \<Rightarrow> context2d" where
  "ctx_lineTo x y c = c\<lparr>path := path c @ [LineTo x y]\<rparr>"

definition ctx_arc :: "real \<Rightarrow> real \<Rightarrow> real \<Rightarrow> real \<Rightarrow> real \<Rightarrow> context2d \<Rightarrow> context2d" where
  "ctx_arc x y r a0 a1 c = c\<lparr>path := path c @ [Arc x y r a0 a1]\<rparr>"

definition ctx_closePath :: "context2d \<Rightarrow> context2d" where
  "ctx_closePath c = c\<lparr>path := path c @ [ClosePath]\<rparr>"

definition ctx_stroke :: "context2d \<Rightarrow> context2d" where
  "ctx_stroke c =
     c\<lparr>painted := painted c @ [Stroke (strokeStyle c) (lineWidth c) (shadowOf c) (path c)]\<rparr>"

definition ctx_fill :: "context2d \<Rightarrow> context2d" where
  "ctx_fill c = c\<lparr>painted := painted c @ [Fill (fillStyle c) (shadowOf c) (path c)]\<rparr>"

definition ctx_fillText :: "string \<Rightarrow> real \<Rightarrow> real \<Rightarrow> context2d \<Rightarrow> context2d" where
  "ctx_fillText t x y c =
     c\<lparr>painted := painted c @
        [FillText (fillStyle c) (font c) (textAlign c) (textBaseline c) (shadowOf c) t x y]\<rparr>"

definition ctx_clearRect :: "real \<Rightarrow> real \<Rightarrow> real \<Rightarrow> real \<Rightarrow> context2d \<Rightarrow> context2d" where
  "ctx_clearRect x y w h c = c\<lparr>painted := painted c @ [ClearRect x y w h]\<rparr>"

definition ctx_fillRect :: "real \<Rightarrow> real \<Rightarrow> real \<Rightarrow> real \<Rightarrow> context2d \<Rightarrow> context2d" where
  "ctx_fillRect x y w h c =
     c\<lparr>painted := painted c @ [FillRect (fillStyle c) (shadowOf c) x y w h]\<rparr>"


text \<open>The state of a context right after its canvas is created or resized.\<close>

definition freshContext :: context2d where
  "freshContext =
     \<lparr>fillStyle = ''#000000'', strokeStyle = ''#000000'', lineWidth = 1,
      font = ''10px sans-serif'', textAlign = ''start'', textBaseline = ''alphabetic'',
      shadowBlur = 0, shadowColor = ''rgba(0, 0, 0, 0)'', ctxScale = (1, 1),
      path = [], painted = []\<rparr>"

text \<open>
  A canvas element: its bitmap size (\<open>canvas.width\<close>, \<open>canvas.height\<close>), its layout box
  (\<open>getBoundingClientRect()\<close>, taken as fixed by the page's style sheet) and the 2D
  context \<open>getContext('2d')\<close> hands out. An element found under the id is taken to be a
  canvas with a 2D context.
\<close>

record canvasElement =
  width :: real
  height :: real
  rectWidth :: real
  rectHeight :: real
  getContext :: context2d

text \<open>
  The visualizer object. The constructors assign \<open>this.ctx\<close> exactly when \<open>this.canvas\<close>
  is non-null, and \<open>this.ctx\<close> is the context of that canvas, so one optional field holds
  both: \<open>None\<close> is the object whose constructor returned early. (The fields \<open>nodes\<close> and
  \<open>edges\<close> that one constructor initialises are never read again and are left out.)
\<close>

record visualizer =
  canvas :: "canvasElement option"

datatype error = TypeError

datatype outcome = Returned | Raised error

section \<open>The data handed to the renderer\<close>

record position =
  pos_x :: real
  pos_y :: real

record edge =
  edge_from :: string
  edge_to :: string

text \<open>A field that the payload may omit is an option; \<open>x || []\<close> reads it.\<close>

record wfgData =
  wfg_nodes :: "string list option"
  wfg_edges :: "edge list option"
  deadlockedNodes :: "string list option"

definition orEmpty :: "'a list option \<Rightarrow> 'a list" where
  "orEmpty xs = (case xs of None \<Rightarrow> [] | Some l \<Rightarrow> l)"

text \<open>
  \<open>states\<close> is an array of ids or an object; of an object only \<open>Object.keys\<close>, its keys in
  enumeration order, is ever read.
\<close>

datatype states = StateArray "string list" | StateObject "string list"

definition stateListOf :: "states \<Rightarrow> string list" where
  "stateListOf s = (case s of StateArray l \<Rightarrow> l | StateObject ks \<Rightarrow> ks)"

text \<open>\<open>Math.atan2\<close> on reals, with the value the library gives at the origin.\<close>

definition atan2 :: "real \<Rightarrow> real \<Rightarrow> real" where
  "atan2 y x =
     (if 0 < x then arctan (y / x)
      else if x < 0 then (if 0 \<le> y then arctan (y / x) + pi else arctan (y / x) - pi)
      else if 0 < y then pi / 2
      else if y < 0 then - (pi / 2)
      else 0)"

section \<open>The layout shared by both files\<close>

text \<open>
  Both \<open>drawWaitForGraph\<close> bodies fill \<open>nodePositions\<close> with the same \<open>forEach\<close>: the
  node at \<open>index\<close> is stored under its own id, a later duplicate overwriting an earlier one.
  The object is a finite map from ids to positions, and an id never stored reads as
  undefined. (An id that names a property every object inherits, such as \<open>constructor\<close>,
  reads as a value without coordinates; the arrow computed from it has no finite point and
  the canvas draws nothing for it, so the painted result is that of the map.)
\<close>

definition nodePositions :: "real \<Rightarrow> real \<Rightarrow> real \<Rightarrow> string list \<Rightarrow> (string \<rightharpoonup> position)" where
  "nodePositions centerX centerY r nodes =
     fold (\<lambda>(index, node) np.
             let angle = (2 * pi * real index) / real (length nodes)
             in np(node \<mapsto> \<lparr>pos_x = centerX + r * cos angle, pos_y = centerY + r * sin angle\<rparr>))
          (enumerate 0 nodes) Map.empty"

section \<open>web/static/js/visualization.js\<close>

definition constructor :: "(string \<rightharpoonup> canvasElement) \<Rightarrow> string \<Rightarrow> outcome \<times> visualizer" where
  "constructor document canvasId =
     (case document canvasId of
        None \<Rightarrow> (Returned, \<lparr>canvas = None\<rparr>)
      | Some cv \<Rightarrow> (Returned, \<lparr>canvas = Some cv\<rparr>))"

definition clear :: "visualizer \<Rightarrow> outcome \<times> visualizer" where
  "clear v =
     (case canvas v of
        None \<Rightarrow> (Raised TypeError, v)
      | Some cv \<Rightarrow>
          let c = getContext cv;
              c = ctx_clearRect 0 0 (width cv) (height cv) c;
              c = c\<lparr>fillStyle := ''#f8f9fa''\<rparr>;
              c = ctx_fillRect 0 0 (width cv) (height cv) c
          in (Returned, v\<lparr>canvas := Some (cv\<lparr>getContext := c\<rparr>)\<rparr>))"

definition drawArrow :: "real \<Rightarrow> real \<Rightarrow> real \<Rightarrow> real \<Rightarrow> context2d \<Rightarrow> context2d" where
  "drawArrow x1 y1 x2 y2 c =
     (let headLength = 15;
          angle = atan2 (y2 - y1) (x2 - x1);
          nodeRadius = 25;
          x2 = x2 - nodeRadius * cos angle;
          y2 = y2 - nodeRadius * sin angle;
          x1 = x1 + nodeRadius * cos angle;
          y1 = y1 + nodeRadius * sin angle;
          c = ctx_beginPath c;
          c = ctx_moveTo x1 y1 c;
          c = ctx_lineTo x2 y2 c;
          c = ctx_stroke c;
          c = ctx_beginPath c;
          c = ctx_moveTo x2 y2 c;
          c = ctx_lineTo (x2 - headLength * cos (angle - pi / 6))
                         (y2 - headLength * sin (angle - pi / 6)) c;
          c = ctx_moveTo x2 y2 c;
          c = ctx_lineTo (x2 - headLength * cos (angle + pi / 6))
                         (y2 - headLength * sin (angle + pi / 6)) c
      in ctx_stroke c)"

definition drawNode :: "real \<Rightarrow> real \<Rightarrow> string \<Rightarrow> string \<Rightarrow> context2d \<Rightarrow> context2d" where
  "drawNode x y label color c =
     (let radius = 25;
          c = c\<lparr>fillStyle := color\<rparr>;
          c = ctx_beginPath c;
          c = ctx_arc x y radius 0 (2 * pi) c;
          c = ctx_fill c;
          c = c\<lparr>strokeStyle := ''#333''\<rparr>;
          c = c\<lparr>lineWidth := 2\<rparr>;
          c = ctx_stroke c;
          c = c\<lparr>fillStyle := ''#fff''\<rparr>;
          c = c\<lparr>font := ''bold 14px Arial''\<rparr>;
          c = c\<lparr>textAlign := ''center''\<rparr>;
          c = c\<lparr>textBaseline := ''middle''\<rparr>
      in ctx_fillText label x y c)"

definition radius :: "real \<Rightarrow> real \<Rightarrow> real" where
  "radius centerX centerY = min centerX centerY - 50"

definition drawEdges :: "(string \<rightharpoonup> position) \<Rightarrow> edge list \<Rightarrow> context2d \<Rightarrow> context2d" where
  "drawEdges np edges c =
     fold (\<lambda>edge c.
             case (np (edge_from edge), np (edge_to edge)) of
               (Some from, Some to) \<Rightarrow> drawArrow (pos_x from) (pos_y from) (pos_x to) (pos_y to) c
             | _ \<Rightarrow> c)
          edges c"

text \<open>Reading \<open>pos.x\<close> of a missing entry would raise; the loop stops there.\<close>

fun drawNodes :: "(string \<rightharpoonup> position) \<Rightarrow> string list \<Rightarrow> context2d \<Rightarrow> outcome \<times> context2d" where
  "drawNodes np [] c = (Returned, c)"
| "drawNodes np (node # rest) c =
     (case np node of
        None \<Rightarrow> (Raised TypeError, c)
      | Some pos \<Rightarrow> drawNodes np rest (drawNode (pos_x pos) (pos_y pos) node ''#667eea'' c))"

definition drawWaitForGraph :: "wfgData option \<Rightarrow> visualizer \<Rightarrow> outcome \<times> visualizer" where
  "drawWaitForGraph wfgData v =
     (case canvas v of
        None \<Rightarrow> (Returned, v)
      | Some _ \<Rightarrow>
         (case clear v of
            (Raised e, v) \<Rightarrow> (Raised e, v)
          | (Returned, v) \<Rightarrow>
             (case wfgData of
                None \<Rightarrow> (Raised TypeError, v)
              | Some d \<Rightarrow>
                 (case canvas v of
                    None \<Rightarrow> (Raised TypeError, v)
                  | Some cv \<Rightarrow>
                      let nodes = orEmpty (wfg_nodes d);
                          edges = orEmpty (wfg_edges d);
                          centerX = width cv / 2;
                          centerY = height cv / 2;
                          r = radius centerX centerY;
                          np = nodePositions centerX centerY r nodes;
                          c = getContext cv;
                          c = c\<lparr>strokeStyle := ''#dc3545''\<rparr>;
                          c = c\<lparr>lineWidth := 2\<rparr>;
                          c = drawEdges np edges c;
                          (out, c) = drawNodes np nodes c
                      in (out, v\<lparr>canvas := Some (cv\<lparr>getContext := c\<rparr>)\<rparr>)))))"

text \<open>\<open>drawFSADiagram\<close> starts with \<open>this.clear()\<close>; there is no test of \<open>this.ctx\<close> before it.\<close>

fun drawStates :: "real \<Rightarrow> real \<Rightarrow> real \<Rightarrow> nat \<Rightarrow> string option \<Rightarrow> (nat \<times> string) list \<Rightarrow> context2d \<Rightarrow> context2d" where
  "drawStates centerX centerY r n currentState [] c = c"
| "drawStates centerX centerY r n currentState ((index, state) # rest) c =
     (let angle = (2 * pi * real index) / real n;
          x = centerX + r * cos angle;
          y = centerY + r * sin angle;
          color = (if Some state = currentState then ''#28a745'' else ''#6c757d'')
      in drawStates centerX centerY r n currentState rest (drawNode x y state color c))"

definition drawFSADiagram :: "states option \<Rightarrow> string option \<Rightarrow> visualizer \<Rightarrow> outcome \<times> visualizer" where
  "drawFSADiagram sts currentState v =
     (case clear v of
        (Raised e, v) \<Rightarrow> (Raised e, v)
      | (Returned, v) \<Rightarrow>
         (case sts of
            None \<Rightarrow> (Raised TypeError, v)
          | Some s \<Rightarrow>
             (case canvas v of
                None \<Rightarrow> (Raised TypeError, v)
              | Some cv \<Rightarrow>
                  let stateList = stateListOf s;
                      centerX = width cv / 2;
                      centerY = height cv / 2;
                      r = radius centerX centerY;
                      c = drawStates centerX centerY r (length stateList) currentState
                            (enumerate 0 stateList) (getContext cv)
                  in (Returned, v\<lparr>canvas := Some (cv\<lparr>getContext := c\<rparr>)\<rparr>))))"

section \<open>The dark-mode visualizer (second copy of visualization.js)\<close>



definition clearCanvas :: "visualizer \<Rightarrow> outcome \<times> visualizer" where
  "clearCanvas v =
     (case canvas v of
        None \<Rightarrow> (Returned, v)
      | Some cv \<Rightarrow>
          let c = getContext cv;
              c = ctx_clearRect 0 0 (rectWidth cv) (rectHeight cv) c;
              c = c\<lparr>fillStyle := ''#0f172a''\<rparr>;
              c = ctx_fillRect 0 0 (rectWidth cv) (rectHeight cv) c
          in (Returned, v\<lparr>canvas := Some (cv\<lparr>getContext := c\<rparr>)\<rparr>))"

definition drawNode_dm :: "real \<Rightarrow> real \<Rightarrow> string \<Rightarrow> string \<Rightarrow> context2d \<Rightarrow> context2d" where
  \<open>drawNode_dm x y label color c =
     (let radius = 28;
          c = c\<lparr>shadowBlur := 15\<rparr>;
          c = c\<lparr>shadowColor := color\<rparr>;
          c = c\<lparr>fillStyle := ''#1e293b''\<rparr>;
          c = ctx_beginPath c;
          c = ctx_arc x y radius 0 (2 * pi) c;
          c = ctx_fill c;
          c = c\<lparr>strokeStyle := color\<rparr>;
          c = c\<lparr>lineWidth := 3\<rparr>;
          c = ctx_stroke c;
          c = c\<lparr>shadowBlur := 0\<rparr>;
          c = c\<lparr>fillStyle := ''#f1f5f9''\<rparr>;
          c = c\<lparr>font := ''bold 14px "Segoe UI", Arial''\<rparr>;
          c = c\<lparr>textAlign := ''center''\<rparr>;
          c = c\<lparr>textBaseline := ''middle''\<rparr>
      in ctx_fillText label x y c)\<close>

text \<open>\<open>color || '#94a3b8'\<close>: a missing or empty colour falls back to the slate default.\<close>

definition colorOr :: "string option \<Rightarrow> string" where
  "colorOr color = (case color of None \<Rightarrow> ''#94a3b8'' | Some s \<Rightarrow> if s = [] then ''#94a3b8'' else s)"

definition drawArrow_dm :: "real \<Rightarrow> real \<Rightarrow> real \<Rightarrow> real \<Rightarrow> string option \<Rightarrow> context2d \<Rightarrow> context2d" where
  "drawArrow_dm x1 y1 x2 y2 color c =
     (let headLength = 12;
          nodeRadius = 30;
          angle = atan2 (y2 - y1) (x2 - x1);
          startX = x1 + nodeRadius * cos angle;
          startY = y1 + nodeRadius * sin angle;
          endX = x2 - nodeRadius * cos angle;
          endY = y2 - nodeRadius * sin angle;
          c = c\<lparr>strokeStyle := colorOr color\<rparr>;
          c = ctx_beginPath c;
          c = ctx_moveTo startX startY c;
          c = ctx_lineTo endX endY c;
          c = ctx_stroke c;
          c = ctx_beginPath c;
          c = ctx_moveTo endX endY c;
          c = ctx_lineTo (endX - headLength * cos (angle - pi / 6))
                         (endY - headLength * sin (angle - pi / 6)) c;
          c = ctx_lineTo (endX - headLength * cos (angle + pi / 6))
                         (endY - headLength * sin (angle + pi / 6)) c;
          c = ctx_closePath c;
          c = c\<lparr>fillStyle := colorOr color\<rparr>
      in ctx_fill c)"

definition radius_dm :: "real \<Rightarrow> real \<Rightarrow> real" where
  "radius_dm centerX centerY = min centerX centerY - 60"

definition drawEdges_dm :: "(string \<rightharpoonup> position) \<Rightarrow> edge list \<Rightarrow> context2d \<Rightarrow> context2d" where
  "drawEdges_dm np edges c =
     fold (\<lambda>edge c.
             case (np (edge_from edge), np (edge_to edge)) of
               (Some startPos, Some endPos) \<Rightarrow>
                 drawArrow_dm (pos_x startPos) (pos_y startPos) (pos_x endPos) (pos_y endPos) (Some ''#f87171'') c
             | _ \<Rightarrow> c)
          edges c"

text \<open>
  \<open>wfgData.deadlockedNodes && wfgData.deadlockedNodes.includes(node)\<close>: an omitted field
  makes the test false.
\<close>

definition isDeadlocked :: "wfgData \<Rightarrow> string \<Rightarrow> bool" where
  "isDeadlocked d node = (case deadlockedNodes d of None \<Rightarrow> False | Some dl \<Rightarrow> node \<in> set dl)"

fun drawNodes_dm :: "wfgData \<Rightarrow> (string \<rightharpoonup> position) \<Rightarrow> string list \<Rightarrow> context2d \<Rightarrow> outcome \<times> context2d" where
  "drawNodes_dm d np [] c = (Returned, c)"
| "drawNodes_dm d np (node # rest) c =
     (case np node of
        None \<Rightarrow> (Raised TypeError, c)
      | Some pos \<Rightarrow>
          let color = (if isDeadlocked d node then ''#ef4444'' else ''#38bdf8'')
          in drawNodes_dm d np rest (drawNode_dm (pos_x pos) (pos_y pos) node color c))"

definition drawWaitForGraph_dm :: "wfgData option \<Rightarrow> visualizer \<Rightarrow> outcome \<times> visualizer" where
  "drawWaitForGraph_dm wfgData v =
     (case (canvas v, wfgData) of
        (Some _, Some d) \<Rightarrow>
         (case clearCanvas v of
            (Raised e, v) \<Rightarrow> (Raised e, v)
          | (Returned, v) \<Rightarrow>
             (case canvas v of
                None \<Rightarrow> (Raised TypeError, v)
              | Some cv \<Rightarrow>
                  let nodes = orEmpty (wfg_nodes d);
                      edges = orEmpty (wfg_edges d);
                      centerX = rectWidth cv / 2;
                      centerY = rectHeight cv / 2;
                      r = radius_dm centerX centerY;
                      np = nodePositions centerX centerY r nodes;
                      c = getContext cv;
                      c = c\<lparr>strokeStyle := ''#94a3b8''\<rparr>;
                      c = c\<lparr>lineWidth := 2\<rparr>;
                      c = drawEdges_dm np edges c;
                      (out, c) = drawNodes_dm d np nodes c
                  in (out, v\<lparr>canvas := Some (cv\<lparr>getContext := c\<rparr>)\<rparr>)))
      | _ \<Rightarrow> (Returned, v))"

fun drawStates_dm :: "real \<Rightarrow> real \<Rightarrow> real \<Rightarrow> nat \<Rightarrow> string option \<Rightarrow> (nat \<times> string) list \<Rightarrow> context2d \<Rightarrow> context2d" where
  "drawStates_dm centerX centerY r n currentState [] c = c"
| "drawStates_dm centerX centerY r n currentState ((i, state) # rest) c =
     (let angle = (2 * pi * real i) / real n;
          x = centerX + r * cos angle;
          y = centerY + r * sin angle;
          color = (if Some state = currentState then ''#10b981'' else ''#475569'')
      in drawStates_dm centerX centerY r n currentState rest (drawNode_dm x y state color c))"

definition drawFSADiagram_dm :: "states option \<Rightarrow> string option \<Rightarrow> visualizer \<Rightarrow> outcome \<times> visualizer" where
  "drawFSADiagram_dm sts currentState v =
     (case (canvas v, sts) of
        (Some _, Some s) \<Rightarrow>
         (case clearCanvas v of
            (Raised e, v) \<Rightarrow> (Raised e, v)
          | (Returned, v) \<Rightarrow>
             (case canvas v of
                None \<Rightarrow> (Raised TypeError, v)
              | Some cv \<Rightarrow>
                  let stateList = stateListOf s;
                      centerX = rectWidth cv / 2;
                      centerY = rectHeight cv / 2;
                      r = radius_dm centerX centerY;
                      c = drawStates_dm centerX centerY r (length stateList) currentState
                            (enumerate 0 stateList) (getContext cv)
                  in (Returned, v\<lparr>canvas := Some (cv\<lparr>getContext := c\<rparr>)\<rparr>)))
      | _ \<Rightarrow> (Returned, v))"

text \<open>What a call added to the bitmap: the paint operations issued since the state before it.\<close>

definition paintedOf :: "visualizer \<Rightarrow> paint list" where
  "paintedOf v = (case canvas v of None \<Rightarrow> [] | Some cv \<Rightarrow> painted (getContext cv))"

definition emitted :: "visualizer \<Rightarrow> visualizer \<Rightarrow> paint list" where
  "emitted before after = drop (length (paintedOf before)) (paintedOf after)"

section \<open>What a render call paints\<close>

text \<open>
  The lists below spell out the paint operations the source functions issue; the lemmas of
  the next section prove, function by function, that the code issues exactly these.
  \<open>arrowStrokes\<close> and \<open>nodePaints\<close> belong to web/static/js/visualization.js, the names
  ending in \<open>_dm\<close> to the dark-mode copy.
\<close>

definition arrowStrokes :: "string \<Rightarrow> real \<Rightarrow> shadow \<Rightarrow> real \<Rightarrow> real \<Rightarrow> real \<Rightarrow> real \<Rightarrow> paint list" where
  "arrowStrokes style lw sh x1 y1 x2 y2 =
     (let a = atan2 (y2 - y1) (x2 - x1);
          sx = x1 + 25 * cos a; sy = y1 + 25 * sin a;
          ex = x2 - 25 * cos a; ey = y2 - 25 * sin a
      in [Stroke style lw sh [MoveTo sx sy, LineTo ex ey],
          Stroke style lw sh
            [MoveTo ex ey, LineTo (ex - 15 * cos (a - pi / 6)) (ey - 15 * sin (a - pi / 6)),
             MoveTo ex ey, LineTo (ex - 15 * cos (a + pi / 6)) (ey - 15 * sin (a + pi / 6))]])"

definition nodePaints :: "shadow \<Rightarrow> real \<Rightarrow> real \<Rightarrow> string \<Rightarrow> string \<Rightarrow> paint list" where
  "nodePaints sh x y label color =
     [Fill color sh [Arc x y 25 0 (2 * pi)],
      Stroke ''#333'' 2 sh [Arc x y 25 0 (2 * pi)],
      FillText ''#fff'' ''bold 14px Arial'' ''center'' ''middle'' sh label x y]"

text \<open>
  One step of the \<open>forEach\<close> that fills \<open>nodePositions\<close>, with the position as a function of
  the index.
\<close>

definition store :: "(nat \<Rightarrow> position) \<Rightarrow> nat \<times> string \<Rightarrow> (string \<rightharpoonup> position) \<Rightarrow> (string \<rightharpoonup> position)" where
  "store P = (\<lambda>(i, node) np. np(node \<mapsto> P i))"

definition background :: "shadow \<Rightarrow> real \<Rightarrow> real \<Rightarrow> paint list" where
  "background sh w h = [ClearRect 0 0 w h, FillRect ''#f8f9fa'' sh 0 0 w h]"

text \<open>
  An edge is resolved when both of its endpoints have a stored position, the test
  \<open>from && to\<close> of the edge loop.
\<close>

definition resolved :: "(string \<rightharpoonup> position) \<Rightarrow> edge \<Rightarrow> bool" where
  "resolved np e \<longleftrightarrow> np (edge_from e) \<noteq> None \<and> np (edge_to e) \<noteq> None"

definition edgePaints :: "string \<Rightarrow> real \<Rightarrow> shadow \<Rightarrow> (string \<rightharpoonup> position) \<Rightarrow> edge \<Rightarrow> paint list" where
  "edgePaints style lw sh np e =
     arrowStrokes style lw sh
       (pos_x (the (np (edge_from e)))) (pos_y (the (np (edge_from e))))
       (pos_x (the (np (edge_to e)))) (pos_y (the (np (edge_to e))))"

text \<open>
  A whole frame of the wait-for graph: background, the arrows of the resolved edges in
  edge order, then the nodes in node order.
\<close>

definition wfgFrame :: "wfgData \<Rightarrow> real \<Rightarrow> real \<Rightarrow> shadow \<Rightarrow> paint list" where
  "wfgFrame d w h sh =
     (let nodes = orEmpty (wfg_nodes d);
          np = nodePositions (w / 2) (h / 2) (radius (w / 2) (h / 2)) nodes
      in background sh w h @
         concat (map (edgePaints ''#dc3545'' 2 sh np) (filter (resolved np) (orEmpty (wfg_edges d)))) @
         concat (map (\<lambda>n. nodePaints sh (pos_x (the (np n))) (pos_y (the (np n))) n ''#667eea'') nodes))"

definition arrowPaints_dm :: "real \<Rightarrow> shadow \<Rightarrow> real \<Rightarrow> real \<Rightarrow> real \<Rightarrow> real \<Rightarrow> string option \<Rightarrow> paint list" where
  "arrowPaints_dm lw sh x1 y1 x2 y2 color =
     (let a = atan2 (y2 - y1) (x2 - x1);
          sx = x1 + 30 * cos a; sy = y1 + 30 * sin a;
          ex = x2 - 30 * cos a; ey = y2 - 30 * sin a
      in [Stroke (colorOr color) lw sh [MoveTo sx sy, LineTo ex ey],
          Fill (colorOr color) sh
            [MoveTo ex ey, LineTo (ex - 12 * cos (a - pi / 6)) (ey - 12 * sin (a - pi / 6)),
             LineTo (ex - 12 * cos (a + pi / 6)) (ey - 12 * sin (a + pi / 6)), ClosePath]])"

definition nodePaints_dm :: "real \<Rightarrow> real \<Rightarrow> string \<Rightarrow> string \<Rightarrow> paint list" where
  \<open>nodePaints_dm x y label color =
     [Fill ''#1e293b'' (Some (15, color)) [Arc x y 28 0 (2 * pi)],
      Stroke color 3 (Some (15, color)) [Arc x y 28 0 (2 * pi)],
      FillText ''#f1f5f9'' ''bold 14px "Segoe UI", Arial'' ''center'' ''middle'' None label x y]\<close>

definition background_dm :: "shadow \<Rightarrow> real \<Rightarrow> real \<Rightarrow> paint list" where
  "background_dm sh w h = [ClearRect 0 0 w h, FillRect ''#0f172a'' sh 0 0 w h]"

definition edgePaints_dm :: "real \<Rightarrow> shadow \<Rightarrow> (string \<rightharpoonup> position) \<Rightarrow> edge \<Rightarrow> paint list" where
  "edgePaints_dm lw sh np e =
     arrowPaints_dm lw sh
       (pos_x (the (np (edge_from e)))) (pos_y (the (np (edge_from e))))
       (pos_x (the (np (edge_to e)))) (pos_y (the (np (edge_to e)))) (Some ''#f87171'')"

definition nodeColor_dm :: "wfgData \<Rightarrow> string \<Rightarrow> string" where
  "nodeColor_dm d n =
     (if isDeadlocked d n then ''#ef4444'' else ''#38bdf8'')"

definition wfgFrame_dm :: "wfgData \<Rightarrow> real \<Rightarrow> real \<Rightarrow> shadow \<Rightarrow> paint list" where
  "wfgFrame_dm d w h sh =
     (let nodes = orEmpty (wfg_nodes d);
          np = nodePositions (w / 2) (h / 2) (radius_dm (w / 2) (h / 2)) nodes
      in background_dm sh w h @
         concat (map (edgePaints_dm 2 sh np) (filter (resolved np) (orEmpty (wfg_edges d)))) @
         concat (map (\<lambda>n. nodePaints_dm (pos_x (the (np n))) (pos_y (the (np n))) n (nodeColor_dm d n)) nodes))"

text \<open>
  The state diagram computes each position in place, from the index and the number of
  states.
\<close>

definition ringX :: "real \<Rightarrow> real \<Rightarrow> nat \<Rightarrow> nat \<Rightarrow> real" where
  "ringX centerX r n i = centerX + r * cos (2 * pi * real i / real n)"

definition ringY :: "real \<Rightarrow> real \<Rightarrow> nat \<Rightarrow> nat \<Rightarrow> real" where
  "ringY centerY r n i = centerY + r * sin (2 * pi * real i / real n)"

definition stateColor :: "string option \<Rightarrow> string \<Rightarrow> string" where
  "stateColor currentState s = (if Some s = currentState then ''#28a745'' else ''#6c757d'')"

definition stateColor_dm :: "string option \<Rightarrow> string \<Rightarrow> string" where
  "stateColor_dm currentState s = (if Some s = currentState then ''#10b981'' else ''#475569'')"

definition fsaFrame :: "states \<Rightarrow> string option \<Rightarrow> real \<Rightarrow> real \<Rightarrow> shadow \<Rightarrow> paint list" where
  "fsaFrame sts currentState w h sh =
     (let ids = stateListOf sts; r = radius (w / 2) (h / 2)
      in background sh w h @
         concat (map (\<lambda>(i, s). nodePaints sh (ringX (w / 2) r (length ids) i)
                                   (ringY (h / 2) r (length ids) i) s (stateColor currentState s))
                     (enumerate 0 ids)))"

definition fsaFrame_dm :: "states \<Rightarrow> string option \<Rightarrow> real \<Rightarrow> real \<Rightarrow> shadow \<Rightarrow> paint list" where
  "fsaFrame_dm sts currentState w h sh =
     (let ids = stateListOf sts; r = radius_dm (w / 2) (h / 2)
      in background_dm sh w h @
         concat (map (\<lambda>(i, s). nodePaints_dm (ringX (w / 2) r (length ids) i)
                                   (ringY (h / 2) r (length ids) i) s (stateColor_dm currentState s))
                     (enumerate 0 ids)))"

text \<open>
  Reading the node colours off the bitmap: the first file fills each node circle with the
  node's colour, the dark-mode copy strokes the circle's outline with it. A circle is a
  path made of a single arc.
\<close>

fun filledCircles :: "paint list \<Rightarrow> string list" where
  "filledCircles [] = []"
| "filledCircles (Fill color sh [Arc x y r a0 a1] # ps) = color # filledCircles ps"
| "filledCircles (p # ps) = filledCircles ps"

fun strokedCircles :: "paint list \<Rightarrow> string list" where
  "strokedCircles [] = []"
| "strokedCircles (Stroke color lw sh [Arc x y r a0 a1] # ps) = color # strokedCircles ps"
| "strokedCircles (p # ps) = strokedCircles ps"

text \<open>
  A visualizer bound to a fresh 400 by 300 canvas, for the worked examples.
\<close>

definition canvas400x300 :: visualizer where
  "canvas400x300 =
     \<lparr>canvas = Some \<lparr>width = 400, height = 300, rectWidth = 400, rectHeight = 300,
                       getContext = freshContext\<rparr>\<rparr>"



text \<open>
  The picture on the bitmap. A \<open>clearRect\<close> covers the bitmap when, under the context's
  scale, its rectangle reaches from the origin or before it to the bitmap's width and
  height or beyond. \<open>overpaint\<close> replays the operations in order: a covering clear wipes
  what was shown, any other operation is composited on top of it. \<open>surface\<close> is the
  bitmap's size and scale with what it shows; an unbound visualizer has none. (No render
  function changes the scale, and the only code that does, the dark-mode constructor,
  empties the bitmap first, so the operations shown were issued under the current scale.)
\<close>

definition coversBitmap :: "canvasElement \<Rightarrow> paint \<Rightarrow> bool" where
  "coversBitmap cv p =
     (case p of
        ClearRect x y w h \<Rightarrow>
          x * fst (ctxScale (getContext cv)) \<le> 0 \<and> y * snd (ctxScale (getContext cv)) \<le> 0 \<and>
          width cv \<le> (x + w) * fst (ctxScale (getContext cv)) \<and>
          height cv \<le> (y + h) * snd (ctxScale (getContext cv))
      | _ \<Rightarrow> False)"

fun overpaint :: "canvasElement \<Rightarrow> paint list \<Rightarrow> paint list \<Rightarrow> paint list" where
  "overpaint cv shown [] = shown"
| "overpaint cv shown (p # ps) = overpaint cv (if coversBitmap cv p then [p] else shown @ [p]) ps"






section \<open>The canvas primitives and the loops\<close>

lemmas ctx_defs = ctx_beginPath_def ctx_moveTo_def ctx_lineTo_def ctx_arc_def ctx_closePath_def
  ctx_stroke_def ctx_fill_def ctx_fillText_def ctx_clearRect_def ctx_fillRect_def shadowOf_def

lemma drawArrow_painted:
  "painted (drawArrow x1 y1 x2 y2 c) =
     painted c @ arrowStrokes (strokeStyle c) (lineWidth c) (shadowOf c) x1 y1 x2 y2"
  by (simp add: drawArrow_def arrowStrokes_def ctx_defs Let_def)

lemma drawArrow_attrs:
  "strokeStyle (drawArrow x1 y1 x2 y2 c) = strokeStyle c"
  "lineWidth (drawArrow x1 y1 x2 y2 c) = lineWidth c"
  "shadowBlur (drawArrow x1 y1 x2 y2 c) = shadowBlur c"
  "shadowColor (drawArrow x1 y1 x2 y2 c) = shadowColor c"
  by (simp_all add: drawArrow_def ctx_defs Let_def)

lemma drawNode_painted:
  "painted (drawNode x y label color c) = painted c @ nodePaints (shadowOf c) x y label color"
  by (simp add: drawNode_def nodePaints_def ctx_defs Let_def)

lemma drawNode_attrs:
  "shadowBlur (drawNode x y label color c) = shadowBlur c"
  "shadowColor (drawNode x y label color c) = shadowColor c"
  by (simp_all add: drawNode_def ctx_defs Let_def)

lemma store_pair: "store P (i, k) m = m(k \<mapsto> P i)"
  by (simp add: store_def)

lemma fold_store_other:
  "k \<notin> snd ` set ps \<Longrightarrow> fold (store P) ps m k = m k"
  by (induction ps arbitrary: m) (auto simp: store_pair)

lemma fold_store_dom:
  "dom (fold (store P) ps m) = dom m \<union> snd ` set ps"
  by (induction ps arbitrary: m) (auto simp: store_pair)

lemma fold_store_at:
  "distinct (map snd ps) \<Longrightarrow> (i, k) \<in> set ps \<Longrightarrow> fold (store P) ps m k = Some (P i)"
proof (induction ps arbitrary: m)
  case Nil
  then show ?case by simp
next
  case (Cons p ps)
  show ?case
  proof (cases "(i, k) = p")
    case True
    with Cons.prems have "k \<notin> snd ` set ps" by force
    then have "fold (store P) ps (m(k \<mapsto> P i)) k = (m(k \<mapsto> P i)) k"
      by (rule fold_store_other)
    with True [symmetric] show ?thesis by (simp add: store_pair)
  next
    case False
    with Cons show ?thesis by auto
  qed
qed

lemma nodePositions_fold:
  "nodePositions cx cy r nodes =
     fold (store (\<lambda>i. \<lparr>pos_x = cx + r * cos (2 * pi * real i / real (length nodes)),
                        pos_y = cy + r * sin (2 * pi * real i / real (length nodes))\<rparr>))
          (enumerate 0 nodes) Map.empty"
  by (simp add: nodePositions_def store_def Let_def)

lemma nodePositions_dom: "dom (nodePositions cx cy r nodes) = set nodes"
  unfolding nodePositions_fold fold_store_dom
  by (simp flip: set_map)

lemma nodePositions_None: "nodePositions cx cy r nodes k = None \<longleftrightarrow> k \<notin> set nodes"
  using nodePositions_dom [of cx cy r nodes] domIff [of k "nodePositions cx cy r nodes"] by simp

lemma nodePositions_at:
  assumes "distinct nodes" and "i < length nodes"
  shows "nodePositions cx cy r nodes (nodes ! i) =
           Some \<lparr>pos_x = cx + r * cos (2 * pi * real i / real (length nodes)),
                 pos_y = cy + r * sin (2 * pi * real i / real (length nodes))\<rparr>"
  unfolding nodePositions_fold
proof (rule fold_store_at)
  show "distinct (map snd (enumerate 0 nodes))" using assms(1) by simp
  show "(i, nodes ! i) \<in> set (enumerate 0 nodes)"
    using assms(2) by (simp add: in_set_enumerate_eq)
qed

lemma drawEdges_attrs_conj:
  "strokeStyle (drawEdges np es c) = strokeStyle c \<and> lineWidth (drawEdges np es c) = lineWidth c \<and>
   shadowBlur (drawEdges np es c) = shadowBlur c \<and> shadowColor (drawEdges np es c) = shadowColor c"
  unfolding drawEdges_def
  by (induction es arbitrary: c) (auto simp: drawArrow_attrs split: option.splits)

lemma drawEdges_attrs:
  "strokeStyle (drawEdges np es c) = strokeStyle c"
  "lineWidth (drawEdges np es c) = lineWidth c"
  "shadowBlur (drawEdges np es c) = shadowBlur c"
  "shadowColor (drawEdges np es c) = shadowColor c"
  using drawEdges_attrs_conj [of np es c] by blast+

lemma drawEdges_painted:
  "painted (drawEdges np es c) =
     painted c @ concat (map (edgePaints (strokeStyle c) (lineWidth c) (shadowOf c) np)
                             (filter (resolved np) es))"
  unfolding drawEdges_def
proof (induction es arbitrary: c)
  case Nil
  show ?case by simp
next
  case (Cons e es)
  show ?case
  proof (cases "resolved np e")
    case True
    then obtain f t where ft: "np (edge_from e) = Some f" "np (edge_to e) = Some t"
      by (auto simp: resolved_def)
    let ?c = "drawArrow (pos_x f) (pos_y f) (pos_x t) (pos_y t) c"
    have "shadowOf ?c = shadowOf c"
      by (simp add: shadowOf_def drawArrow_attrs)
    with True ft Cons [of ?c] show ?thesis
      by (simp add: drawArrow_attrs drawArrow_painted edgePaints_def)
  next
    case False
    with Cons [of c] show ?thesis
      by (auto simp: resolved_def split: option.splits)
  qed
qed

lemma drawNodes_result:
  assumes "\<forall>n \<in> set ns. np n \<noteq> None"
  shows "fst (drawNodes np ns c) = Returned \<and>
         painted (snd (drawNodes np ns c)) =
           painted c @ concat (map (\<lambda>n. nodePaints (shadowOf c)
                                          (pos_x (the (np n))) (pos_y (the (np n))) n ''#667eea'') ns) \<and>
         shadowBlur (snd (drawNodes np ns c)) = shadowBlur c \<and>
         shadowColor (snd (drawNodes np ns c)) = shadowColor c"
  using assms
proof (induction ns arbitrary: c)
  case Nil
  show ?case by simp
next
  case (Cons n ns)
  then obtain p where p: "np n = Some p" by auto
  let ?c = "drawNode (pos_x p) (pos_y p) n ''#667eea'' c"
  have sh: "shadowOf ?c = shadowOf c"
    by (simp add: shadowOf_def drawNode_attrs)
  from Cons.prems have "\<forall>n \<in> set ns. np n \<noteq> None" by simp
  from Cons.IH [OF this, of ?c] p sh show ?case
    by (simp add: drawNode_painted drawNode_attrs)
qed

lemma clear_bound:
  "canvas v = Some cv \<Longrightarrow>
   clear v = (Returned, v\<lparr>canvas := Some (cv\<lparr>getContext :=
      (getContext cv)\<lparr>fillStyle := ''#f8f9fa'',
         painted := painted (getContext cv) @ background (shadowOf (getContext cv)) (width cv) (height cv)\<rparr>\<rparr>)\<rparr>)"
  by (simp add: clear_def background_def ctx_defs Let_def)

lemma drawWaitForGraph_bound:
  assumes cv: "canvas v = Some cv"
  shows "\<exists>c'. drawWaitForGraph (Some d) v = (Returned, v\<lparr>canvas := Some (cv\<lparr>getContext := c'\<rparr>)\<rparr>) \<and>
              painted c' = painted (getContext cv) @
                             wfgFrame d (width cv) (height cv) (shadowOf (getContext cv)) \<and>
              shadowBlur c' = shadowBlur (getContext cv) \<and>
              shadowColor c' = shadowColor (getContext cv)"
proof -
  let ?nodes = "orEmpty (wfg_nodes d)"
  let ?np = "nodePositions (width cv / 2) (height cv / 2) (radius (width cv / 2) (height cv / 2)) ?nodes"
  let ?c0 = "(getContext cv)\<lparr>fillStyle := ''#f8f9fa'',
         painted := painted (getContext cv) @ background (shadowOf (getContext cv)) (width cv) (height cv)\<rparr>"
  let ?c1 = "?c0\<lparr>strokeStyle := ''#dc3545'', lineWidth := 2\<rparr>"
  let ?c2 = "drawEdges ?np (orEmpty (wfg_edges d)) ?c1"
  have sh1: "shadowOf ?c1 = shadowOf (getContext cv)" by (simp add: shadowOf_def)
  have sh2: "shadowOf ?c2 = shadowOf (getContext cv)"
    unfolding shadowOf_def by (simp add: drawEdges_attrs)
  have all: "\<forall>n \<in> set ?nodes. ?np n \<noteq> None"
    by (simp add: nodePositions_None)
  note nd = drawNodes_result [OF all, of ?c2]
  have eq: "drawWaitForGraph (Some d) v =
          (fst (drawNodes ?np ?nodes ?c2),
           v\<lparr>canvas := Some (cv\<lparr>getContext := snd (drawNodes ?np ?nodes ?c2)\<rparr>)\<rparr>)"
    using cv by (simp add: drawWaitForGraph_def clear_bound Let_def case_prod_beta)
  show ?thesis
    apply (rule exI [of _ "snd (drawNodes ?np ?nodes ?c2)"])
    using nd
    by (simp add: eq sh1 sh2 drawEdges_attrs drawEdges_painted wfgFrame_def Let_def)
qed

lemma drawArrow_dm_painted:
  "painted (drawArrow_dm x1 y1 x2 y2 color c) =
     painted c @ arrowPaints_dm (lineWidth c) (shadowOf c) x1 y1 x2 y2 color"
  by (simp add: drawArrow_dm_def arrowPaints_dm_def ctx_defs Let_def)

lemma drawArrow_dm_attrs:
  "lineWidth (drawArrow_dm x1 y1 x2 y2 color c) = lineWidth c"
  "shadowBlur (drawArrow_dm x1 y1 x2 y2 color c) = shadowBlur c"
  "shadowColor (drawArrow_dm x1 y1 x2 y2 color c) = shadowColor c"
  by (simp_all add: drawArrow_dm_def ctx_defs Let_def)

lemma drawNode_dm_painted:
  "painted (drawNode_dm x y label color c) = painted c @ nodePaints_dm x y label color"
  by (simp add: drawNode_dm_def nodePaints_dm_def ctx_defs Let_def)

lemma drawNode_dm_attrs:
  "shadowBlur (drawNode_dm x y label color c) = 0"
  "shadowColor (drawNode_dm x y label color c) = color"
  by (simp_all add: drawNode_dm_def ctx_defs Let_def)

lemma drawEdges_dm_attrs_conj:
  "lineWidth (drawEdges_dm np es c) = lineWidth c \<and>
   shadowBlur (drawEdges_dm np es c) = shadowBlur c \<and> shadowColor (drawEdges_dm np es c) = shadowColor c"
  unfolding drawEdges_dm_def
  by (induction es arbitrary: c) (auto simp: drawArrow_dm_attrs split: option.splits)

lemma drawEdges_dm_attrs:
  "lineWidth (drawEdges_dm np es c) = lineWidth c"
  "shadowBlur (drawEdges_dm np es c) = shadowBlur c"
  "shadowColor (drawEdges_dm np es c) = shadowColor c"
  using drawEdges_dm_attrs_conj [of np es c] by blast+

lemma drawEdges_dm_painted:
  "painted (drawEdges_dm np es c) =
     painted c @ concat (map (edgePaints_dm (lineWidth c) (shadowOf c) np) (filter (resolved np) es))"
  unfolding drawEdges_dm_def
proof (induction es arbitrary: c)
  case Nil
  show ?case by simp
next
  case (Cons e es)
  show ?case
  proof (cases "resolved np e")
    case True
    then obtain f t where ft: "np (edge_from e) = Some f" "np (edge_to e) = Some t"
      by (auto simp: resolved_def)
    let ?c = "drawArrow_dm (pos_x f) (pos_y f) (pos_x t) (pos_y t) (Some ''#f87171'') c"
    have "shadowOf ?c = shadowOf c"
      by (simp add: shadowOf_def drawArrow_dm_attrs)
    with True ft Cons [of ?c] show ?thesis
      by (simp add: drawArrow_dm_attrs drawArrow_dm_painted edgePaints_dm_def)
  next
    case False
    with Cons [of c] show ?thesis
      by (auto simp: resolved_def split: option.splits)
  qed
qed

lemma isDeadlocked_color:
  "(if isDeadlocked d n then ''#ef4444'' else ''#38bdf8'') = nodeColor_dm d n"
  by (simp add: nodeColor_dm_def)

lemma drawNodes_dm_result:
  assumes "\<forall>n \<in> set ns. np n \<noteq> None"
  shows "fst (drawNodes_dm d np ns c) = Returned \<and>
         painted (snd (drawNodes_dm d np ns c)) =
           painted c @ concat (map (\<lambda>n. nodePaints_dm (pos_x (the (np n))) (pos_y (the (np n))) n
                                          (nodeColor_dm d n)) ns) \<and>
         shadowBlur (snd (drawNodes_dm d np ns c)) = (if ns = [] then shadowBlur c else 0)"
  using assms
proof (induction ns arbitrary: c)
  case Nil
  show ?case by simp
next
  case (Cons n ns)
  then obtain p where p: "np n = Some p" by auto
  let ?c = "drawNode_dm (pos_x p) (pos_y p) n (nodeColor_dm d n) c"
  from Cons.prems have "\<forall>n \<in> set ns. np n \<noteq> None" by simp
  from Cons.IH [OF this, of ?c] p show ?case
    by (simp add: drawNode_dm_painted drawNode_dm_attrs isDeadlocked_color)
qed

lemma clearCanvas_bound:
  "canvas v = Some cv \<Longrightarrow>
   clearCanvas v = (Returned, v\<lparr>canvas := Some (cv\<lparr>getContext :=
      (getContext cv)\<lparr>fillStyle := ''#0f172a'',
         painted := painted (getContext cv) @
                    background_dm (shadowOf (getContext cv)) (rectWidth cv) (rectHeight cv)\<rparr>\<rparr>)\<rparr>)"
  by (simp add: clearCanvas_def background_dm_def ctx_defs Let_def)

lemma drawWaitForGraph_dm_bound:
  assumes cv: "canvas v = Some cv"
  shows "\<exists>c'. drawWaitForGraph_dm (Some d) v = (Returned, v\<lparr>canvas := Some (cv\<lparr>getContext := c'\<rparr>)\<rparr>) \<and>
              painted c' = painted (getContext cv) @
                             wfgFrame_dm d (rectWidth cv) (rectHeight cv) (shadowOf (getContext cv)) \<and>
              (shadowBlur (getContext cv) = 0 \<longrightarrow> shadowBlur c' = 0)"
proof -
  let ?nodes = "orEmpty (wfg_nodes d)"
  let ?np = "nodePositions (rectWidth cv / 2) (rectHeight cv / 2)
               (radius_dm (rectWidth cv / 2) (rectHeight cv / 2)) ?nodes"
  let ?c0 = "(getContext cv)\<lparr>fillStyle := ''#0f172a'',
         painted := painted (getContext cv) @
                    background_dm (shadowOf (getContext cv)) (rectWidth cv) (rectHeight cv)\<rparr>"
  let ?c1 = "?c0\<lparr>strokeStyle := ''#94a3b8'', lineWidth := 2\<rparr>"
  let ?c2 = "drawEdges_dm ?np (orEmpty (wfg_edges d)) ?c1"
  have sh1: "shadowOf ?c1 = shadowOf (getContext cv)" by (simp add: shadowOf_def)
  have all: "\<forall>n \<in> set ?nodes. ?np n \<noteq> None"
    by (simp add: nodePositions_None)
  note nd = drawNodes_dm_result [OF all, of d ?c2]
  have eq: "drawWaitForGraph_dm (Some d) v =
          (fst (drawNodes_dm d ?np ?nodes ?c2),
           v\<lparr>canvas := Some (cv\<lparr>getContext := snd (drawNodes_dm d ?np ?nodes ?c2)\<rparr>)\<rparr>)"
    using cv by (simp add: drawWaitForGraph_dm_def clearCanvas_bound Let_def case_prod_beta)
  show ?thesis
    apply (rule exI [of _ "snd (drawNodes_dm d ?np ?nodes ?c2)"])
    using nd
    by (simp add: eq sh1 drawEdges_dm_attrs drawEdges_dm_painted wfgFrame_dm_def Let_def)
qed

lemma drawStates_result:
  "painted (drawStates cx cy r n cur ps c) =
     painted c @ concat (map (\<lambda>(i, s). nodePaints (shadowOf c) (ringX cx r n i) (ringY cy r n i) s
                                          (stateColor cur s)) ps) \<and>
   shadowBlur (drawStates cx cy r n cur ps c) = shadowBlur c \<and>
   shadowColor (drawStates cx cy r n cur ps c) = shadowColor c"
proof (induction ps arbitrary: c)
  case Nil
  show ?case by simp
next
  case (Cons p ps)
  obtain i s where p: "p = (i, s)" by (cases p)
  let ?c = "drawNode (ringX cx r n i) (ringY cy r n i) s (stateColor cur s) c"
  have sh: "shadowOf ?c = shadowOf c"
    by (simp add: shadowOf_def drawNode_attrs)
  from Cons [of ?c] sh show ?case
    by (simp add: p Let_def ringX_def ringY_def stateColor_def drawNode_painted drawNode_attrs)
qed

lemma drawStates_dm_result:
  "painted (drawStates_dm cx cy r n cur ps c) =
     painted c @ concat (map (\<lambda>(i, s). nodePaints_dm (ringX cx r n i) (ringY cy r n i) s
                                          (stateColor_dm cur s)) ps) \<and>
   shadowBlur (drawStates_dm cx cy r n cur ps c) = (if ps = [] then shadowBlur c else 0)"
proof (induction ps arbitrary: c)
  case Nil
  show ?case by simp
next
  case (Cons p ps)
  obtain i s where p: "p = (i, s)" by (cases p)
  let ?c = "drawNode_dm (ringX cx r n i) (ringY cy r n i) s (stateColor_dm cur s) c"
  from Cons [of ?c] show ?case
    by (simp add: p Let_def ringX_def ringY_def stateColor_dm_def drawNode_dm_painted drawNode_dm_attrs)
qed

lemma drawFSADiagram_bound:
  assumes cv: "canvas v = Some cv"
  shows "\<exists>c'. drawFSADiagram (Some sts) cur v = (Returned, v\<lparr>canvas := Some (cv\<lparr>getContext := c'\<rparr>)\<rparr>) \<and>
              painted c' = painted (getContext cv) @
                             fsaFrame sts cur (width cv) (height cv) (shadowOf (getContext cv)) \<and>
              shadowBlur c' = shadowBlur (getContext cv) \<and>
              shadowColor c' = shadowColor (getContext cv)"
proof -
  let ?c0 = "(getContext cv)\<lparr>fillStyle := ''#f8f9fa'',
         painted := painted (getContext cv) @ background (shadowOf (getContext cv)) (width cv) (height cv)\<rparr>"
  let ?c' = "drawStates (width cv / 2) (height cv / 2) (radius (width cv / 2) (height cv / 2))
               (length (stateListOf sts)) cur (enumerate 0 (stateListOf sts)) ?c0"
  have sh0: "shadowOf ?c0 = shadowOf (getContext cv)" by (simp add: shadowOf_def)
  have eq: "drawFSADiagram (Some sts) cur v = (Returned, v\<lparr>canvas := Some (cv\<lparr>getContext := ?c'\<rparr>)\<rparr>)"
    using cv by (simp add: drawFSADiagram_def clear_bound Let_def)
  show ?thesis
    apply (rule exI [of _ ?c'])
    by (simp add: eq sh0 drawStates_result fsaFrame_def Let_def)
qed

lemma drawFSADiagram_dm_bound:
  assumes cv: "canvas v = Some cv"
  shows "\<exists>c'. drawFSADiagram_dm (Some sts) cur v = (Returned, v\<lparr>canvas := Some (cv\<lparr>getContext := c'\<rparr>)\<rparr>) \<and>
              painted c' = painted (getContext cv) @
                             fsaFrame_dm sts cur (rectWidth cv) (rectHeight cv) (shadowOf (getContext cv)) \<and>
              (shadowBlur (getContext cv) = 0 \<longrightarrow> shadowBlur c' = 0)"
proof -
  let ?c0 = "(getContext cv)\<lparr>fillStyle := ''#0f172a'',
         painted := painted (getContext cv) @
                    background_dm (shadowOf (getContext cv)) (rectWidth cv) (rectHeight cv)\<rparr>"
  let ?c' = "drawStates_dm (rectWidth cv / 2) (rectHeight cv / 2)
               (radius_dm (rectWidth cv / 2) (rectHeight cv / 2))
               (length (stateListOf sts)) cur (enumerate 0 (stateListOf sts)) ?c0"
  have eq: "drawFSADiagram_dm (Some sts) cur v = (Returned, v\<lparr>canvas := Some (cv\<lparr>getContext := ?c'\<rparr>)\<rparr>)"
    using cv by (simp add: drawFSADiagram_dm_def clearCanvas_bound Let_def)
  show ?thesis
    apply (rule exI [of _ ?c'])
    by (simp add: eq drawStates_dm_result fsaFrame_dm_def Let_def)
qed

lemma filledCircles_append: "filledCircles (ps @ qs) = filledCircles ps @ filledCircles qs"
  by (induction ps rule: filledCircles.induct) simp_all

lemma strokedCircles_append: "strokedCircles (ps @ qs) = strokedCircles ps @ strokedCircles qs"
  by (induction ps rule: strokedCircles.induct) simp_all

lemma filledCircles_concat_none:
  "(\<And>x. x \<in> set xs \<Longrightarrow> filledCircles (f x) = []) \<Longrightarrow> filledCircles (concat (map f xs)) = []"
  by (induction xs) (simp_all add: filledCircles_append)

lemma strokedCircles_concat_none:
  "(\<And>x. x \<in> set xs \<Longrightarrow> strokedCircles (f x) = []) \<Longrightarrow> strokedCircles (concat (map f xs)) = []"
  by (induction xs) (simp_all add: strokedCircles_append)

lemma filledCircles_concat_one:
  "(\<And>x. x \<in> set xs \<Longrightarrow> filledCircles (f x) = [g x]) \<Longrightarrow> filledCircles (concat (map f xs)) = map g xs"
  by (induction xs) (simp_all add: filledCircles_append)

lemma strokedCircles_concat_one:
  "(\<And>x. x \<in> set xs \<Longrightarrow> strokedCircles (f x) = [g x]) \<Longrightarrow> strokedCircles (concat (map f xs)) = map g xs"
  by (induction xs) (simp_all add: strokedCircles_append)

lemma filledCircles_parts:
  "filledCircles (background sh w h) = []"
  "filledCircles (arrowStrokes style lw sh x1 y1 x2 y2) = []"
  "filledCircles (nodePaints sh x y label color) = [color]"
  by (simp_all add: background_def arrowStrokes_def nodePaints_def Let_def)

lemma strokedCircles_parts_dm:
  "strokedCircles (background_dm sh w h) = []"
  "strokedCircles (arrowPaints_dm lw sh x1 y1 x2 y2 col) = []"
  "strokedCircles (nodePaints_dm x y label color) = [color]"
  by (simp_all add: background_dm_def arrowPaints_dm_def nodePaints_dm_def Let_def)

lemma emitted_bound:
  "canvas v = Some cv \<Longrightarrow> painted c' = painted (getContext cv) @ ps \<Longrightarrow>
   emitted v (v\<lparr>canvas := Some (cv\<lparr>getContext := c'\<rparr>)\<rparr>) = ps"
  by (simp add: emitted_def paintedOf_def)

lemma wfg_emitted:
  assumes "canvas v = Some cv"
  shows "fst (drawWaitForGraph (Some d) v) = Returned"
    and "emitted v (snd (drawWaitForGraph (Some d) v)) =
           wfgFrame d (width cv) (height cv) (shadowOf (getContext cv))"
  using drawWaitForGraph_bound [OF assms, of d] emitted_bound [OF assms] by auto

lemma wfg_dm_emitted:
  assumes "canvas v = Some cv"
  shows "fst (drawWaitForGraph_dm (Some d) v) = Returned"
    and "emitted v (snd (drawWaitForGraph_dm (Some d) v)) =
           wfgFrame_dm d (rectWidth cv) (rectHeight cv) (shadowOf (getContext cv))"
  using drawWaitForGraph_dm_bound [OF assms, of d] emitted_bound [OF assms] by auto

lemma fsa_emitted:
  assumes "canvas v = Some cv"
  shows "fst (drawFSADiagram (Some sts) cur v) = Returned"
    and "emitted v (snd (drawFSADiagram (Some sts) cur v)) =
           fsaFrame sts cur (width cv) (height cv) (shadowOf (getContext cv))"
  using drawFSADiagram_bound [OF assms, of sts cur] emitted_bound [OF assms] by auto

lemma fsa_dm_emitted:
  assumes "canvas v = Some cv"
  shows "fst (drawFSADiagram_dm (Some sts) cur v) = Returned"
    and "emitted v (snd (drawFSADiagram_dm (Some sts) cur v)) =
           fsaFrame_dm sts cur (rectWidth cv) (rectHeight cv) (shadowOf (getContext cv))"
  using drawFSADiagram_dm_bound [OF assms, of sts cur] emitted_bound [OF assms] by auto

lemma resolved_nodePositions:
  "resolved (nodePositions cx cy r nodes) e \<longleftrightarrow> edge_from e \<in> set nodes \<and> edge_to e \<in> set nodes"
  by (simp add: resolved_def nodePositions_None)

lemma wfgFrame_filledCircles:
  "filledCircles (wfgFrame d w h sh) = map (\<lambda>n. ''#667eea'') (orEmpty (wfg_nodes d))"
  by (simp add: wfgFrame_def Let_def filledCircles_append filledCircles_parts edgePaints_def
        filledCircles_concat_none filledCircles_concat_one [where g = "\<lambda>n. ''#667eea''"])

lemma wfgFrame_dm_strokedCircles:
  "strokedCircles (wfgFrame_dm d w h sh) = map (nodeColor_dm d) (orEmpty (wfg_nodes d))"
  by (simp add: wfgFrame_dm_def Let_def strokedCircles_append strokedCircles_parts_dm edgePaints_dm_def
        strokedCircles_concat_none strokedCircles_concat_one [where g = "nodeColor_dm d"])

lemma map_snd_enumerate_comp: "map (\<lambda>(i, s). g s) (enumerate n xs) = map g xs"
  by (induction xs arbitrary: n) simp_all

lemma fsaFrame_filledCircles:
  "filledCircles (fsaFrame sts cur w h sh) = map (stateColor cur) (stateListOf sts)"
proof -
  let ?ids = "stateListOf sts"
  let ?f = "\<lambda>(i, s). nodePaints sh (ringX (w / 2) (radius (w / 2) (h / 2)) (length ?ids) i)
                       (ringY (h / 2) (radius (w / 2) (h / 2)) (length ?ids) i) s (stateColor cur s)"
  have "filledCircles (concat (map ?f (enumerate 0 ?ids))) = map (\<lambda>(i, s). stateColor cur s) (enumerate 0 ?ids)"
    by (rule filledCircles_concat_one) (auto simp: filledCircles_parts)
  then show ?thesis
    by (simp add: fsaFrame_def Let_def filledCircles_append filledCircles_parts map_snd_enumerate_comp)
qed

lemma fsaFrame_dm_strokedCircles:
  "strokedCircles (fsaFrame_dm sts cur w h sh) = map (stateColor_dm cur) (stateListOf sts)"
proof -
  let ?ids = "stateListOf sts"
  let ?f = "\<lambda>(i, s). nodePaints_dm (ringX (w / 2) (radius_dm (w / 2) (h / 2)) (length ?ids) i)
                       (ringY (h / 2) (radius_dm (w / 2) (h / 2)) (length ?ids) i) s (stateColor_dm cur s)"
  have "strokedCircles (concat (map ?f (enumerate 0 ?ids))) = map (\<lambda>(i, s). stateColor_dm cur s) (enumerate 0 ?ids)"
    by (rule strokedCircles_concat_one) (auto simp: strokedCircles_parts_dm)
  then show ?thesis
    by (simp add: fsaFrame_dm_def Let_def strokedCircles_append strokedCircles_parts_dm map_snd_enumerate_comp)
qed

lemma distinct_count_filter:
  "distinct xs \<Longrightarrow> length (filter (\<lambda>x. x = a) xs) = (if a \<in> set xs then 1 else 0)"
  by (induction xs) auto

lemma active_count:
  assumes "distinct ids"
  shows "length (filter (\<lambda>c. c = ''#28a745'') (map (stateColor cur) ids)) =
           (if cur \<in> Some ` set ids then 1 else 0)"
    and "length (filter (\<lambda>c. c = ''#10b981'') (map (stateColor_dm cur) ids)) =
           (if cur \<in> Some ` set ids then 1 else 0)"
proof -
  have a: "(\<lambda>s. stateColor cur s = ''#28a745'') = (\<lambda>s. Some s = cur)"
    by (auto simp: stateColor_def)
  have b: "(\<lambda>s. stateColor_dm cur s = ''#10b981'') = (\<lambda>s. Some s = cur)"
    by (auto simp: stateColor_dm_def)
  have c: "length (filter (\<lambda>s. Some s = cur) ids) = (if cur \<in> Some ` set ids then 1 else 0)"
  proof (cases cur)
    case None
    then show ?thesis by auto
  next
    case (Some x)
    then have "(\<lambda>s. Some s = cur) = (\<lambda>s. s = x)" by auto
    with distinct_count_filter [OF assms, of x] Some show ?thesis by auto
  qed
  show "length (filter (\<lambda>c. c = ''#28a745'') (map (stateColor cur) ids)) =
           (if cur \<in> Some ` set ids then 1 else 0)"
    using c by (simp add: filter_map comp_def a)
  show "length (filter (\<lambda>c. c = ''#10b981'') (map (stateColor_dm cur) ids)) =
           (if cur \<in> Some ` set ids then 1 else 0)"
    using c by (simp add: filter_map comp_def b)
qed

lemma sqrt_one_plus_sq_div:
  fixes x y :: real
  assumes "x \<noteq> 0"
  shows "sqrt (1 + (y / x)\<^sup>2) = sqrt (x\<^sup>2 + y\<^sup>2) / \<bar>x\<bar>"
proof -
  have "1 + (y / x)\<^sup>2 = (x\<^sup>2 + y\<^sup>2) / x\<^sup>2"
    using assms by (simp add: power_divide add_divide_distrib)
  then show ?thesis
    by (simp add: real_sqrt_divide)
qed

lemma arctan_polar:
  fixes x y :: real
  assumes "x \<noteq> 0"
  shows "cos (arctan (y / x)) = \<bar>x\<bar> / sqrt (x\<^sup>2 + y\<^sup>2)"
    and "sin (arctan (y / x)) = (y / x) * \<bar>x\<bar> / sqrt (x\<^sup>2 + y\<^sup>2)"
  using assms by (simp_all add: cos_arctan sin_arctan sqrt_one_plus_sq_div)

lemma atan2_polar:
  fixes x y :: real
  assumes "x \<noteq> 0 \<or> y \<noteq> 0"
  shows "cos (atan2 y x) = x / sqrt (x\<^sup>2 + y\<^sup>2)"
    and "sin (atan2 y x) = y / sqrt (x\<^sup>2 + y\<^sup>2)"
proof -
  consider (pos) "0 < x" | (neg) "x < 0" | (up) "x = 0" "0 < y" | (down) "x = 0" "y < 0"
    using assms by linarith
  then have "cos (atan2 y x) = x / sqrt (x\<^sup>2 + y\<^sup>2) \<and> sin (atan2 y x) = y / sqrt (x\<^sup>2 + y\<^sup>2)"
  proof cases
    case pos
    then show ?thesis by (simp add: atan2_def arctan_polar)
  next
    case neg
    then show ?thesis by (simp add: atan2_def arctan_polar)
  next
    case up
    then show ?thesis by (simp add: atan2_def)
  next
    case down
    then show ?thesis by (simp add: atan2_def)
  qed
  then show "cos (atan2 y x) = x / sqrt (x\<^sup>2 + y\<^sup>2)"
    and "sin (atan2 y x) = y / sqrt (x\<^sup>2 + y\<^sup>2)" by simp_all
qed

lemma reversed_angle:
  "cos (a + pi - b) = - cos (a - b)" "sin (a + pi - b) = - sin (a - b)"
  "cos (a + pi + b) = - cos (a + b)" "sin (a + pi + b) = - sin (a + b)"
proof -
  have m: "a + pi - b = (a - b) + pi" and p: "a + pi + b = (a + b) + pi" by simp_all
  show "cos (a + pi - b) = - cos (a - b)" unfolding m by (rule cos_periodic_pi)
  show "sin (a + pi - b) = - sin (a - b)" unfolding m by (rule sin_periodic_pi)
  show "cos (a + pi + b) = - cos (a + b)" unfolding p by (rule cos_periodic_pi)
  show "sin (a + pi + b) = - sin (a + b)" unfolding p by (rule sin_periodic_pi)
qed


















lemma coversBitmap_cong:
  "width cv' = width cv \<Longrightarrow> height cv' = height cv \<Longrightarrow>
   ctxScale (getContext cv') = ctxScale (getContext cv) \<Longrightarrow>
   coversBitmap cv' p = coversBitmap cv p"
  by (cases p) (simp_all add: coversBitmap_def)

lemma overpaint_cong:
  assumes "width cv' = width cv" "height cv' = height cv"
    "ctxScale (getContext cv') = ctxScale (getContext cv)"
  shows "overpaint cv' shown ps = overpaint cv shown ps"
  by (induction ps arbitrary: shown) (simp_all add: coversBitmap_cong [OF assms])


























lemma node_colours_by_file:
  assumes "canvas v = Some cv"
  shows "strokedCircles (emitted v (snd (drawWaitForGraph_dm (Some d) v))) =
           map (\<lambda>n. case deadlockedNodes d of
                       None \<Rightarrow> ''#38bdf8''
                     | Some dl \<Rightarrow> if n \<in> set dl then ''#ef4444'' else ''#38bdf8'')
               (orEmpty (wfg_nodes d)) \<and>
         filledCircles (emitted v (snd (drawWaitForGraph (Some d) v))) =
           map (\<lambda>n. ''#667eea'') (orEmpty (wfg_nodes d))"
proof -
  have col: "nodeColor_dm d = (\<lambda>n. case deadlockedNodes d of
                       None \<Rightarrow> ''#38bdf8''
                     | Some dl \<Rightarrow> if n \<in> set dl then ''#ef4444'' else ''#38bdf8'')"
    by (rule ext) (simp add: nodeColor_dm_def isDeadlocked_def split: option.splits)
  show ?thesis
    by (simp add: wfg_emitted(2) [OF assms] wfg_dm_emitted(2) [OF assms]
          wfgFrame_filledCircles wfgFrame_dm_strokedCircles col)
qed

section \<open>The properties of the specification\<close>

text \<open>
  C10. In the dark-mode visualizer, \<open>drawWaitForGraph\<close> called without a snapshot and
  \<open>drawFSADiagram\<close> called without states return at their first line, before
  \<open>clearCanvas\<close>: the visualizer, and with it every pixel already on the bitmap, is exactly
  what it was.
\<close>

theorem dm_absent_input_untouched:
  "drawWaitForGraph_dm None v = (Returned, v) \<and>
   drawFSADiagram_dm None currentState v = (Returned, v)"
  by (simp add: drawWaitForGraph_dm_def drawFSADiagram_dm_def split: option.splits)

text \<open>
  C2. A visualizer built on an id that names no element is constructed without an error,
  and its \<open>drawWaitForGraph\<close> is a no-op; but in web/static/js/visualization.js
  \<open>drawFSADiagram\<close> on that object reaches \<open>this.ctx.clearRect\<close> with \<open>this.ctx\<close>
  undefined and raises a TypeError.
\<close>

theorem drawFSADiagram_unbound_raises:
  "constructor Map.empty ''fsaCanvas'' = (Returned, \<lparr>canvas = None\<rparr>) \<and>
   drawWaitForGraph (Some \<lparr>wfg_nodes = Some [''P1''], wfg_edges = Some [], deadlockedNodes = None\<rparr>)
     \<lparr>canvas = None\<rparr> = (Returned, \<lparr>canvas = None\<rparr>) \<and>
   drawFSADiagram (Some (StateArray [''NEW'', ''READY''])) (Some ''NEW'') \<lparr>canvas = None\<rparr>
     = (Raised TypeError, \<lparr>canvas = None\<rparr>)"
  by (simp add: constructor_def drawWaitForGraph_def drawFSADiagram_def clear_def)

text \<open>
  C4 as stated fails: on a 60 by 60 surface the radius is \<open>30 - 50 = -20\<close>, not 0, and the
  single node of a one-node graph is laid out 20 units to the left of the centre.
\<close>

theorem radius_clamp_counterexample:
  "radius (60 / 2) (60 / 2) = - 20 \<and>
   nodePositions (60 / 2) (60 / 2) (radius (60 / 2) (60 / 2)) [''A''] ''A''
     = Some \<lparr>pos_x = 10, pos_y = 30\<rparr>"
  by (simp add: radius_def nodePositions_def)

text \<open>
  C4, amended. The layout radius is \<open>min (w/2) (h/2)\<close> minus the margin (50, and 60 in the
  dark-mode copy) with no clamp: it is negative exactly when the smaller half-dimension is
  below the margin, and a lone node is then placed at \<open>w/2 + radius\<close>, left of the centre.
\<close>

theorem radius_unclamped:
  "radius (w / 2) (h / 2) = min (w / 2) (h / 2) - 50 \<and>
   radius_dm (w / 2) (h / 2) = min (w / 2) (h / 2) - 60 \<and>
   (radius (w / 2) (h / 2) < 0 \<longleftrightarrow> min (w / 2) (h / 2) < 50) \<and>
   (radius_dm (w / 2) (h / 2) < 0 \<longleftrightarrow> min (w / 2) (h / 2) < 60) \<and>
   nodePositions (w / 2) (h / 2) (radius (w / 2) (h / 2)) [a] a
     = Some \<lparr>pos_x = w / 2 + (min (w / 2) (h / 2) - 50), pos_y = h / 2\<rparr> \<and>
   nodePositions (w / 2) (h / 2) (radius_dm (w / 2) (h / 2)) [a] a
     = Some \<lparr>pos_x = w / 2 + (min (w / 2) (h / 2) - 60), pos_y = h / 2\<rparr>"
  by (simp add: radius_def radius_dm_def nodePositions_def)

theorem radius_unclamped_witness:
  "radius (60 / 2) (80 / 2) < 0 \<and> radius_dm (100 / 2) (200 / 2) < 0"
  using radius_unclamped [of 60 80 "''A''"] radius_unclamped [of 100 200 "''A''"] by simp

text \<open>
  C3. For distinct ids on a surface of width \<open>w\<close> and height \<open>h\<close>, the layout stores for
  the id at index \<open>i\<close> of \<open>n\<close> the point
  \<open>(w/2 + r cos (2 pi i / n), h/2 + r sin (2 pi i / n))\<close> with \<open>r = min (w/2) (h/2) - margin\<close>
  (margin 50, and 60 in the dark-mode copy). A single id is stored at \<open>(w/2 + r, h/2)\<close>:
  angle 0, offset \<open>r\<close> from the centre, which is the centre only when \<open>r = 0\<close>.
\<close>

theorem layout_on_circle:
  assumes "distinct ids" and "i < length ids"
  shows "nodePositions (w / 2) (h / 2) (radius (w / 2) (h / 2)) ids (ids ! i) =
           Some \<lparr>pos_x = w / 2 + (min (w / 2) (h / 2) - 50) * cos (2 * pi * real i / real (length ids)),
                 pos_y = h / 2 + (min (w / 2) (h / 2) - 50) * sin (2 * pi * real i / real (length ids))\<rparr> \<and>
         nodePositions (w / 2) (h / 2) (radius_dm (w / 2) (h / 2)) ids (ids ! i) =
           Some \<lparr>pos_x = w / 2 + (min (w / 2) (h / 2) - 60) * cos (2 * pi * real i / real (length ids)),
                 pos_y = h / 2 + (min (w / 2) (h / 2) - 60) * sin (2 * pi * real i / real (length ids))\<rparr> \<and>
         nodePositions (w / 2) (h / 2) (radius (w / 2) (h / 2)) [a] a =
           Some \<lparr>pos_x = w / 2 + (min (w / 2) (h / 2) - 50), pos_y = h / 2\<rparr> \<and>
         nodePositions (w / 2) (h / 2) (radius_dm (w / 2) (h / 2)) [a] a =
           Some \<lparr>pos_x = w / 2 + (min (w / 2) (h / 2) - 60), pos_y = h / 2\<rparr> \<and>
         (nodePositions (w / 2) (h / 2) (radius (w / 2) (h / 2)) [a] a =
            Some \<lparr>pos_x = w / 2, pos_y = h / 2\<rparr> \<longleftrightarrow> min (w / 2) (h / 2) = 50)"
proof -
  have one: "nodePositions cx cy r [a] a = Some \<lparr>pos_x = cx + r, pos_y = cy\<rparr>" for cx cy r
    by (simp add: nodePositions_def)
  show ?thesis
    using nodePositions_at [OF assms, of "w / 2" "h / 2" "radius (w / 2) (h / 2)"]
          nodePositions_at [OF assms, of "w / 2" "h / 2" "radius_dm (w / 2) (h / 2)"]
    by (simp add: one radius_def radius_dm_def)
qed

theorem layout_on_circle_witness:
  "nodePositions (400 / 2) (300 / 2) (radius (400 / 2) (300 / 2)) [''P1'', ''P2'', ''P3'', ''P4''] ''P3'' =
     Some \<lparr>pos_x = 100, pos_y = 150\<rparr> \<and>
   nodePositions (400 / 2) (300 / 2) (radius_dm (400 / 2) (300 / 2)) [''P1'', ''P2'', ''P3'', ''P4''] ''P2'' =
     Some \<lparr>pos_x = 200, pos_y = 240\<rparr>"
proof -
  have d: "distinct [''P1'', ''P2'', ''P3'', ''P4'']" by simp
  have a2: "2 * pi * real (2::nat) / real (length [''P1'', ''P2'', ''P3'', ''P4'']) = pi" by simp
  have a1: "2 * pi * real (1::nat) / real (length [''P1'', ''P2'', ''P3'', ''P4'']) = pi / 2" by simp
  have i2: "(2::nat) < length [''P1'', ''P2'', ''P3'', ''P4'']" by simp
  have i1: "(1::nat) < length [''P1'', ''P2'', ''P3'', ''P4'']" by simp
  from layout_on_circle [OF d i2, of 400 300 "''x''"]
  have "nodePositions (400 / 2) (300 / 2) (radius (400 / 2) (300 / 2)) [''P1'', ''P2'', ''P3'', ''P4'']
          ([''P1'', ''P2'', ''P3'', ''P4''] ! 2) = Some \<lparr>pos_x = 100, pos_y = 150\<rparr>"
    unfolding a2 by simp
  moreover from layout_on_circle [OF d i1, of 400 300 "''x''"]
  have "nodePositions (400 / 2) (300 / 2) (radius_dm (400 / 2) (300 / 2)) [''P1'', ''P2'', ''P3'', ''P4'']
          ([''P1'', ''P2'', ''P3'', ''P4''] ! 1) = Some \<lparr>pos_x = 200, pos_y = 240\<rparr>"
    unfolding a1 by simp
  ultimately show ?thesis by simp
qed

text \<open>
  C5. On a bound surface \<open>drawWaitForGraph\<close> returns normally and paints, after the
  background, one arrow for each edge whose \<open>from\<close> and \<open>to\<close> both occur in the node
  sequence, in edge order, and nothing for any other edge; then it paints every node.
  The same holds for the dark-mode copy.
\<close>

theorem unknown_endpoint_edges_skipped:
  assumes "canvas v = Some cv"
  shows "fst (drawWaitForGraph (Some d) v) = Returned \<and>
         emitted v (snd (drawWaitForGraph (Some d) v)) =
           (let nodes = orEmpty (wfg_nodes d);
                np = nodePositions (width cv / 2) (height cv / 2)
                       (radius (width cv / 2) (height cv / 2)) nodes;
                sh = shadowOf (getContext cv)
            in background sh (width cv) (height cv) @
               concat (map (edgePaints ''#dc3545'' 2 sh np)
                        (filter (\<lambda>e. edge_from e \<in> set nodes \<and> edge_to e \<in> set nodes)
                                (orEmpty (wfg_edges d)))) @
               concat (map (\<lambda>n. nodePaints sh (pos_x (the (np n))) (pos_y (the (np n))) n ''#667eea'')
                        nodes)) \<and>
         fst (drawWaitForGraph_dm (Some d) v) = Returned \<and>
         emitted v (snd (drawWaitForGraph_dm (Some d) v)) =
           (let nodes = orEmpty (wfg_nodes d);
                np = nodePositions (rectWidth cv / 2) (rectHeight cv / 2)
                       (radius_dm (rectWidth cv / 2) (rectHeight cv / 2)) nodes;
                sh = shadowOf (getContext cv)
            in background_dm sh (rectWidth cv) (rectHeight cv) @
               concat (map (edgePaints_dm 2 sh np)
                        (filter (\<lambda>e. edge_from e \<in> set nodes \<and> edge_to e \<in> set nodes)
                                (orEmpty (wfg_edges d)))) @
               concat (map (\<lambda>n. nodePaints_dm (pos_x (the (np n))) (pos_y (the (np n))) n
                                   (nodeColor_dm d n))
                        nodes)) \<and>
         (\<forall>style lw sh np e. length (edgePaints style lw sh np e) = 2) \<and>
         (\<forall>lw sh np e. length (edgePaints_dm lw sh np e) = 2)"
proof -
  have r: "resolved (nodePositions cx cy r nodes) =
             (\<lambda>e. edge_from e \<in> set nodes \<and> edge_to e \<in> set nodes)" for cx cy r nodes
    by (rule ext) (rule resolved_nodePositions)
  have "length (edgePaints style lw sh np e) = 2" for style lw sh np e
    by (simp add: edgePaints_def arrowStrokes_def Let_def)
  moreover have "length (edgePaints_dm lw sh np e) = 2" for lw sh np e
    by (simp add: edgePaints_dm_def arrowPaints_dm_def Let_def)
  ultimately show ?thesis
    using wfg_emitted [OF assms, of d] wfg_dm_emitted [OF assms, of d]
    by (simp add: wfgFrame_def wfgFrame_dm_def Let_def r)
qed

theorem unknown_endpoint_edges_skipped_witness:
  "fst (drawWaitForGraph
          (Some \<lparr>wfg_nodes = Some [''A'', ''B''],
                 wfg_edges = Some [\<lparr>edge_from = ''A'', edge_to = ''X''\<rparr>],
                 deadlockedNodes = None\<rparr>) canvas400x300) = Returned \<and>
   emitted canvas400x300
     (snd (drawWaitForGraph
          (Some \<lparr>wfg_nodes = Some [''A'', ''B''],
                 wfg_edges = Some [\<lparr>edge_from = ''A'', edge_to = ''X''\<rparr>],
                 deadlockedNodes = None\<rparr>) canvas400x300)) =
     [ClearRect 0 0 400 300, FillRect ''#f8f9fa'' None 0 0 400 300] @
     nodePaints None 300 150 ''A'' ''#667eea'' @
     nodePaints None 100 150 ''B'' ''#667eea''"
proof -
  have c: "canvas canvas400x300 =
             Some \<lparr>width = 400, height = 300, rectWidth = 400, rectHeight = 300,
                   getContext = freshContext\<rparr>"
    by (simp add: canvas400x300_def)
  have np: "nodePositions 200 150 100 [''A'', ''B''] =
              [''A'' \<mapsto> \<lparr>pos_x = 300, pos_y = 150\<rparr>, ''B'' \<mapsto> \<lparr>pos_x = 100, pos_y = 150\<rparr>]"
    by (simp add: nodePositions_def)
  show ?thesis
    using unknown_endpoint_edges_skipped [OF c,
      of "\<lparr>wfg_nodes = Some [''A'', ''B''],
                 wfg_edges = Some [\<lparr>edge_from = ''A'', edge_to = ''X''\<rparr>],
                 deadlockedNodes = None\<rparr>"]
    by (simp add: orEmpty_def radius_def np background_def shadowOf_def freshContext_def)
qed

text \<open>
  C6. On a bound surface \<open>drawFSADiagram\<close> returns normally and draws one circle per state
  id, in order, the one equal to \<open>currentState\<close> in the active colour and every other in
  the neutral colour. With distinct ids the number of circles in the active colour is 1
  when \<open>currentState\<close> is among the ids and 0 when it is not. (The first file fills the
  circle with the colour, the dark-mode copy strokes its outline with it.)
\<close>

theorem fsa_current_state_highlight:
  assumes "canvas v = Some cv" and "distinct (stateListOf sts)"
  shows "fst (drawFSADiagram (Some sts) cur v) = Returned \<and>
         filledCircles (emitted v (snd (drawFSADiagram (Some sts) cur v))) =
           map (\<lambda>s. if Some s = cur then ''#28a745'' else ''#6c757d'') (stateListOf sts) \<and>
         length (filter (\<lambda>c. c = ''#28a745'')
                   (filledCircles (emitted v (snd (drawFSADiagram (Some sts) cur v))))) =
           (if cur \<in> Some ` set (stateListOf sts) then 1 else 0) \<and>
         fst (drawFSADiagram_dm (Some sts) cur v) = Returned \<and>
         strokedCircles (emitted v (snd (drawFSADiagram_dm (Some sts) cur v))) =
           map (\<lambda>s. if Some s = cur then ''#10b981'' else ''#475569'') (stateListOf sts) \<and>
         length (filter (\<lambda>c. c = ''#10b981'')
                   (strokedCircles (emitted v (snd (drawFSADiagram_dm (Some sts) cur v))))) =
           (if cur \<in> Some ` set (stateListOf sts) then 1 else 0)"
proof -
  have l: "filledCircles (emitted v (snd (drawFSADiagram (Some sts) cur v))) =
             map (stateColor cur) (stateListOf sts)"
    by (simp add: fsa_emitted [OF assms(1)] fsaFrame_filledCircles)
  have d: "strokedCircles (emitted v (snd (drawFSADiagram_dm (Some sts) cur v))) =
             map (stateColor_dm cur) (stateListOf sts)"
    by (simp add: fsa_dm_emitted [OF assms(1)] fsaFrame_dm_strokedCircles)
  have sc: "stateColor cur = (\<lambda>s. if Some s = cur then ''#28a745'' else ''#6c757d'')"
    by (rule ext) (simp add: stateColor_def)
  have sd: "stateColor_dm cur = (\<lambda>s. if Some s = cur then ''#10b981'' else ''#475569'')"
    by (rule ext) (simp add: stateColor_dm_def)
  show ?thesis
    unfolding l d
    using active_count [OF assms(2), of cur] fsa_emitted(1) [OF assms(1), of sts cur]
          fsa_dm_emitted(1) [OF assms(1), of sts cur]
    by (simp add: sc sd)
qed

theorem fsa_current_state_highlight_witness:
  "filledCircles (emitted canvas400x300
     (snd (drawFSADiagram (Some (StateArray [''NEW'', ''READY'', ''RUNNING'', ''BLOCKED'', ''TERMINATED'']))
            (Some ''RUNNING'') canvas400x300))) =
     [''#6c757d'', ''#6c757d'', ''#28a745'', ''#6c757d'', ''#6c757d''] \<and>
   strokedCircles (emitted canvas400x300
     (snd (drawFSADiagram_dm (Some (StateObject [''NEW'', ''READY'', ''RUNNING'', ''BLOCKED'', ''TERMINATED'']))
            (Some ''UNKNOWN'') canvas400x300))) =
     [''#475569'', ''#475569'', ''#475569'', ''#475569'', ''#475569'']"
proof -
  have c: "canvas canvas400x300 =
             Some \<lparr>width = 400, height = 300, rectWidth = 400, rectHeight = 300,
                   getContext = freshContext\<rparr>"
    by (simp add: canvas400x300_def)
  have a: "distinct (stateListOf (StateArray [''NEW'', ''READY'', ''RUNNING'', ''BLOCKED'', ''TERMINATED'']))"
    by (simp add: stateListOf_def)
  have b: "distinct (stateListOf (StateObject [''NEW'', ''READY'', ''RUNNING'', ''BLOCKED'', ''TERMINATED'']))"
    by (simp add: stateListOf_def)
  show ?thesis
    using fsa_current_state_highlight [OF c a, of "Some ''RUNNING''"]
          fsa_current_state_highlight [OF c b, of "Some ''UNKNOWN''"]
    by (simp add: stateListOf_def)
qed

text \<open>
  C8. The layout of an empty sequence is the empty mapping. On a bound surface a graph
  with no nodes, whatever its edges, and a diagram with no states (an empty array or an
  object without keys) return normally having painted the cleared background and nothing
  else; the division by the sequence length is never evaluated.
\<close>

theorem empty_sequence_background_only:
  assumes "canvas v = Some cv"
  shows "nodePositions cx cy r [] = Map.empty \<and>
         (orEmpty (wfg_nodes d) = [] \<longrightarrow>
            fst (drawWaitForGraph (Some d) v) = Returned \<and>
            emitted v (snd (drawWaitForGraph (Some d) v)) =
              [ClearRect 0 0 (width cv) (height cv),
               FillRect ''#f8f9fa'' (shadowOf (getContext cv)) 0 0 (width cv) (height cv)] \<and>
            fst (drawWaitForGraph_dm (Some d) v) = Returned \<and>
            emitted v (snd (drawWaitForGraph_dm (Some d) v)) =
              [ClearRect 0 0 (rectWidth cv) (rectHeight cv),
               FillRect ''#0f172a'' (shadowOf (getContext cv)) 0 0 (rectWidth cv) (rectHeight cv)]) \<and>
         (stateListOf sts = [] \<longrightarrow>
            fst (drawFSADiagram (Some sts) cur v) = Returned \<and>
            emitted v (snd (drawFSADiagram (Some sts) cur v)) =
              [ClearRect 0 0 (width cv) (height cv),
               FillRect ''#f8f9fa'' (shadowOf (getContext cv)) 0 0 (width cv) (height cv)] \<and>
            fst (drawFSADiagram_dm (Some sts) cur v) = Returned \<and>
            emitted v (snd (drawFSADiagram_dm (Some sts) cur v)) =
              [ClearRect 0 0 (rectWidth cv) (rectHeight cv),
               FillRect ''#0f172a'' (shadowOf (getContext cv)) 0 0 (rectWidth cv) (rectHeight cv)])"
proof -
  have e: "nodePositions cx cy r [] k = None" for cx cy r k
    by (simp add: nodePositions_None)
  have n: "nodePositions cx cy r [] = Map.empty"
    by (rule ext) (rule e)
  have res: "filter (resolved (nodePositions cx cy r [])) es = []" for cx cy r es
    by (simp add: resolved_def e)
  show ?thesis
    using wfg_emitted [OF assms, of d] wfg_dm_emitted [OF assms, of d]
          fsa_emitted [OF assms, of sts cur] fsa_dm_emitted [OF assms, of sts cur]
    by (simp add: n wfgFrame_def wfgFrame_dm_def fsaFrame_def fsaFrame_dm_def Let_def res
          background_def background_dm_def del: fun_upd_apply)
qed

theorem empty_sequence_background_only_witness:
  "emitted canvas400x300
     (snd (drawWaitForGraph
        (Some \<lparr>wfg_nodes = Some [], wfg_edges = Some [\<lparr>edge_from = ''A'', edge_to = ''B''\<rparr>],
               deadlockedNodes = None\<rparr>) canvas400x300)) =
     [ClearRect 0 0 400 300, FillRect ''#f8f9fa'' None 0 0 400 300] \<and>
   emitted canvas400x300 (snd (drawFSADiagram_dm (Some (StateObject [])) (Some ''NEW'') canvas400x300)) =
     [ClearRect 0 0 400 300, FillRect ''#0f172a'' None 0 0 400 300]"
proof -
  have c: "canvas canvas400x300 =
             Some \<lparr>width = 400, height = 300, rectWidth = 400, rectHeight = 300,
                   getContext = freshContext\<rparr>"
    by (simp add: canvas400x300_def)
  show ?thesis
    using empty_sequence_background_only [OF c,
            of _ _ _ "\<lparr>wfg_nodes = Some [], wfg_edges = Some [\<lparr>edge_from = ''A'', edge_to = ''B''\<rparr>],
               deadlockedNodes = None\<rparr>" "StateObject []" "Some ''NEW''"]
    by (simp add: orEmpty_def stateListOf_def shadowOf_def freshContext_def)
qed

text \<open>
  C1. In web/static/js/visualization.js the property fails: with \<open>P1\<close> and \<open>P2\<close> both
  listed in \<open>deadlockedNodes\<close> the two circles are filled with \<open>#667eea\<close>, the colour the
  same graph gets without \<open>deadlockedNodes\<close>. The dark-mode copy outlines the same two
  nodes in its alert colour \<open>#ef4444\<close>, and in \<open>#38bdf8\<close> once \<open>deadlockedNodes\<close> is left out.
\<close>

theorem deadlock_colour_missing:
  "filledCircles (emitted canvas400x300
     (snd (drawWaitForGraph
        (Some \<lparr>wfg_nodes = Some [''P1'', ''P2''],
               wfg_edges = Some [\<lparr>edge_from = ''P1'', edge_to = ''P2''\<rparr>,
                                 \<lparr>edge_from = ''P2'', edge_to = ''P1''\<rparr>],
               deadlockedNodes = Some [''P1'', ''P2'']\<rparr>) canvas400x300))) =
     [''#667eea'', ''#667eea''] \<and>
   filledCircles (emitted canvas400x300
     (snd (drawWaitForGraph
        (Some \<lparr>wfg_nodes = Some [''P1'', ''P2''],
               wfg_edges = Some [\<lparr>edge_from = ''P1'', edge_to = ''P2''\<rparr>,
                                 \<lparr>edge_from = ''P2'', edge_to = ''P1''\<rparr>],
               deadlockedNodes = None\<rparr>) canvas400x300))) =
     [''#667eea'', ''#667eea''] \<and>
   strokedCircles (emitted canvas400x300
     (snd (drawWaitForGraph_dm
        (Some \<lparr>wfg_nodes = Some [''P1'', ''P2''],
               wfg_edges = Some [\<lparr>edge_from = ''P1'', edge_to = ''P2''\<rparr>,
                                 \<lparr>edge_from = ''P2'', edge_to = ''P1''\<rparr>],
               deadlockedNodes = Some [''P1'', ''P2'']\<rparr>) canvas400x300))) =
     [''#ef4444'', ''#ef4444''] \<and>
   strokedCircles (emitted canvas400x300
     (snd (drawWaitForGraph_dm
        (Some \<lparr>wfg_nodes = Some [''P1'', ''P2''],
               wfg_edges = Some [\<lparr>edge_from = ''P1'', edge_to = ''P2''\<rparr>,
                                 \<lparr>edge_from = ''P2'', edge_to = ''P1''\<rparr>],
               deadlockedNodes = None\<rparr>) canvas400x300))) =
     [''#38bdf8'', ''#38bdf8'']"
proof -
  have c: "canvas canvas400x300 =
             Some \<lparr>width = 400, height = 300, rectWidth = 400, rectHeight = 300,
                   getContext = freshContext\<rparr>"
    by (simp add: canvas400x300_def)
  show ?thesis
    by (simp add: node_colours_by_file [OF c] orEmpty_def)
qed

text \<open>
  C7 as stated fails in the dark-mode copy: an arrow between nodes centred at \<open>(0,0)\<close> and
  \<open>(100,0)\<close> runs from \<open>(30,0)\<close> to \<open>(70,0)\<close>, 30 units from each centre, while the node
  circles that file draws have radius 28.
\<close>

theorem arrow_offset_counterexample:
  "take 1 (painted (drawArrow_dm 0 0 100 0 (Some ''#f87171'') freshContext)) =
     [Stroke ''#f87171'' 1 None [MoveTo 30 0, LineTo 70 0]] \<and>
   take 1 (painted (drawNode_dm 0 0 ''P1'' ''#38bdf8'' freshContext)) =
     [Fill ''#1e293b'' (Some (15, ''#38bdf8'')) [Arc 0 0 28 0 (2 * pi)]]"
  by (simp add: drawArrow_dm_def drawNode_dm_def ctx_defs Let_def freshContext_def atan2_def colorOr_def)

text \<open>
  C7, amended. With \<open>a = atan2 (y2 - y1) (x2 - x1)\<close>, the drawn segment runs from the source
  centre moved by a fixed offset along \<open>a\<close> to the destination centre moved back by the
  same offset: 25 in web/static/js/visualization.js, which is the radius of its node
  circles, and 30 in the dark-mode copy, whose node circles have radius 28. The arrowhead
  starts at the adjusted destination point and has two sides along the reversed angle
  \<open>a + pi\<close> turned by \<open>pi/6\<close> either way, of length 15 as two stroked segments in the
  first file, of length 12 as a closed filled triangle in the dark-mode copy. For distinct
  centres \<open>(cos a, sin a)\<close> is the unit vector from source to destination.
\<close>

theorem arrow_geometry:
  "painted (drawArrow x1 y1 x2 y2 c) = painted c @
     (let a = atan2 (y2 - y1) (x2 - x1);
          sx = x1 + 25 * cos a; sy = y1 + 25 * sin a;
          ex = x2 - 25 * cos a; ey = y2 - 25 * sin a;
          back = a + pi
      in [Stroke (strokeStyle c) (lineWidth c) (shadowOf c) [MoveTo sx sy, LineTo ex ey],
          Stroke (strokeStyle c) (lineWidth c) (shadowOf c)
            [MoveTo ex ey,
             LineTo (ex + 15 * cos (back - pi / 6)) (ey + 15 * sin (back - pi / 6)),
             MoveTo ex ey,
             LineTo (ex + 15 * cos (back + pi / 6)) (ey + 15 * sin (back + pi / 6))]]) \<and>
   painted (drawArrow_dm x1 y1 x2 y2 color c) = painted c @
     (let a = atan2 (y2 - y1) (x2 - x1);
          sx = x1 + 30 * cos a; sy = y1 + 30 * sin a;
          ex = x2 - 30 * cos a; ey = y2 - 30 * sin a;
          back = a + pi
      in [Stroke (colorOr color) (lineWidth c) (shadowOf c) [MoveTo sx sy, LineTo ex ey],
          Fill (colorOr color) (shadowOf c)
            [MoveTo ex ey,
             LineTo (ex + 12 * cos (back - pi / 6)) (ey + 12 * sin (back - pi / 6)),
             LineTo (ex + 12 * cos (back + pi / 6)) (ey + 12 * sin (back + pi / 6)),
             ClosePath]]) \<and>
   take 1 (drop (length (painted c)) (painted (drawNode x y label col c))) =
     [Fill col (shadowOf c) [Arc x y 25 0 (2 * pi)]] \<and>
   take 1 (drop (length (painted c)) (painted (drawNode_dm x y label col c))) =
     [Fill ''#1e293b'' (Some (15, col)) [Arc x y 28 0 (2 * pi)]] \<and>
   (x1 \<noteq> x2 \<or> y1 \<noteq> y2 \<longrightarrow>
      cos (atan2 (y2 - y1) (x2 - x1)) = (x2 - x1) / sqrt ((x2 - x1)\<^sup>2 + (y2 - y1)\<^sup>2) \<and>
      sin (atan2 (y2 - y1) (x2 - x1)) = (y2 - y1) / sqrt ((x2 - x1)\<^sup>2 + (y2 - y1)\<^sup>2))"
proof -
  have polar: "x1 \<noteq> x2 \<or> y1 \<noteq> y2 \<longrightarrow>
      cos (atan2 (y2 - y1) (x2 - x1)) = (x2 - x1) / sqrt ((x2 - x1)\<^sup>2 + (y2 - y1)\<^sup>2) \<and>
      sin (atan2 (y2 - y1) (x2 - x1)) = (y2 - y1) / sqrt ((x2 - x1)\<^sup>2 + (y2 - y1)\<^sup>2)"
    using atan2_polar [of "x2 - x1" "y2 - y1"] by auto
  have light: "painted (drawArrow x1 y1 x2 y2 c) = painted c @
     (let a = atan2 (y2 - y1) (x2 - x1);
          sx = x1 + 25 * cos a; sy = y1 + 25 * sin a;
          ex = x2 - 25 * cos a; ey = y2 - 25 * sin a;
          back = a + pi
      in [Stroke (strokeStyle c) (lineWidth c) (shadowOf c) [MoveTo sx sy, LineTo ex ey],
          Stroke (strokeStyle c) (lineWidth c) (shadowOf c)
            [MoveTo ex ey,
             LineTo (ex + 15 * cos (back - pi / 6)) (ey + 15 * sin (back - pi / 6)),
             MoveTo ex ey,
             LineTo (ex + 15 * cos (back + pi / 6)) (ey + 15 * sin (back + pi / 6))]])"
    unfolding drawArrow_painted arrowStrokes_def Let_def reversed_angle by simp
  have dark: "painted (drawArrow_dm x1 y1 x2 y2 color c) = painted c @
     (let a = atan2 (y2 - y1) (x2 - x1);
          sx = x1 + 30 * cos a; sy = y1 + 30 * sin a;
          ex = x2 - 30 * cos a; ey = y2 - 30 * sin a;
          back = a + pi
      in [Stroke (colorOr color) (lineWidth c) (shadowOf c) [MoveTo sx sy, LineTo ex ey],
          Fill (colorOr color) (shadowOf c)
            [MoveTo ex ey,
             LineTo (ex + 12 * cos (back - pi / 6)) (ey + 12 * sin (back - pi / 6)),
             LineTo (ex + 12 * cos (back + pi / 6)) (ey + 12 * sin (back + pi / 6)),
             ClosePath]])"
    unfolding drawArrow_dm_painted arrowPaints_dm_def Let_def reversed_angle by simp
  have nodes: "take 1 (drop (length (painted c)) (painted (drawNode x y label col c))) =
     [Fill col (shadowOf c) [Arc x y 25 0 (2 * pi)]]"
    "take 1 (drop (length (painted c)) (painted (drawNode_dm x y label col c))) =
     [Fill ''#1e293b'' (Some (15, col)) [Arc x y 28 0 (2 * pi)]]"
    by (simp_all add: drawNode_painted drawNode_dm_painted nodePaints_def nodePaints_dm_def)
  from light dark nodes polar show ?thesis by blast
qed

theorem arrow_geometry_witness:
  "painted (drawArrow 0 0 100 0 freshContext) =
     [Stroke ''#000000'' 1 None [MoveTo 25 0, LineTo 75 0],
      Stroke ''#000000'' 1 None
        [MoveTo 75 0, LineTo (75 - 15 * (sqrt 3 / 2)) (15 / 2),
         MoveTo 75 0, LineTo (75 - 15 * (sqrt 3 / 2)) (- (15 / 2))]] \<and>
   cos (atan2 (40 - 0) (30 - 0)) = 3 / 5 \<and> sin (atan2 (40 - 0) (30 - 0)) = 4 / 5"
proof -
  have a: "atan2 (0 - 0) (100 - 0) = 0" by (simp add: atan2_def)
  have s: "sqrt ((30 - 0)\<^sup>2 + (40 - 0)\<^sup>2) = (50::real)"
    by (rule real_sqrt_unique) simp_all
  have e5: "5 * pi / 6 = pi - pi / 6" and e7: "7 * pi / 6 = pi / 6 + pi" by simp_all
  have t: "cos (5 * pi / 6) = - (sqrt 3 / 2)" "sin (5 * pi / 6) = 1 / 2"
          "cos (7 * pi / 6) = - (sqrt 3 / 2)" "sin (7 * pi / 6) = - (1 / 2)"
    unfolding e5 e7 cos_pi_minus sin_pi_minus cos_periodic_pi sin_periodic_pi cos_30 sin_30
    by simp_all
  from arrow_geometry [of 0 0 100 0 freshContext]
  have "painted (drawArrow 0 0 100 0 freshContext) =
     [Stroke ''#000000'' 1 None [MoveTo 25 0, LineTo 75 0],
      Stroke ''#000000'' 1 None
        [MoveTo 75 0, LineTo (75 - 15 * (sqrt 3 / 2)) (15 / 2),
         MoveTo 75 0, LineTo (75 - 15 * (sqrt 3 / 2)) (- (15 / 2))]]"
    unfolding a Let_def by (simp add: t freshContext_def shadowOf_def)
  moreover from arrow_geometry [of 0 0 30 40]
  have "cos (atan2 (40 - 0) (30 - 0)) = 3 / 5 \<and> sin (atan2 (40 - 0) (30 - 0)) = 4 / 5"
    unfolding s by simp
  ultimately show ?thesis by simp
qed



end
